theory Spec2Isabelle
  imports Complex_Main "HOL-Library.Multiset"
begin

section \<open>Rate limiter (app/rate\_limiter.py)\<close>

text \<open>
  The limiter keeps one Redis sorted set per key. A sorted set is a collection of
  (member, score) pairs with unique members. The source writes the member
  \<^verbatim>\<open>str(current_time)\<close> with score \<^verbatim>\<open>current_time\<close>, where
  \<^verbatim>\<open>current_time = int(time.time())\<close> is a whole number of seconds; the decimal text of
  an integer identifies the integer, so the model keeps the integer as the member.
  A key also carries the deadline set by \<^verbatim>\<open>EXPIRE\<close>; a key whose deadline has passed
  is gone, and a key that does not exist reads as the empty set.
\<close>

type_synonym zset = "(int \<times> int) list"

record redis_key =
  members :: zset
  expire_at :: "int option"

type_synonym redis = "string \<Rightarrow> redis_key"

definition no_key :: redis_key where
  "no_key = \<lparr>members = [], expire_at = None\<rparr>"

definition empty_redis :: redis where
  "empty_redis = (\<lambda>k. no_key)"

text \<open>What a command issued at time \<open>now\<close> finds under a key.\<close>

definition live :: "int \<Rightarrow> redis_key \<Rightarrow> redis_key" where
  "live now k =
     (case expire_at k of
        None \<Rightarrow> k
      | Some d \<Rightarrow> if d \<le> now then no_key else k)"

text \<open>\<^verbatim>\<open>ZREMRANGEBYSCORE key lo hi\<close>: drop the members whose score lies in \<open>[lo, hi]\<close>.\<close>

definition zremrangebyscore :: "zset \<Rightarrow> int \<Rightarrow> int \<Rightarrow> zset" where
  "zremrangebyscore z lo hi = filter (\<lambda>(m, s). \<not> (lo \<le> s \<and> s \<le> hi)) z"

text \<open>\<^verbatim>\<open>ZCARD key\<close>: the number of members.\<close>

definition zcard :: "zset \<Rightarrow> int" where
  "zcard z = int (length z)"

text \<open>\<^verbatim>\<open>ZADD key {member: score}\<close>: a member already present only has its score replaced.\<close>

definition zadd :: "zset \<Rightarrow> int \<Rightarrow> int \<Rightarrow> zset" where
  "zadd z m s =
     (if m \<in> fst ` set z then map (\<lambda>(m', s'). if m' = m then (m', s) else (m', s')) z
      else z @ [(m, s)])"

text \<open>
  \<^verbatim>\<open>EXPIRE key seconds\<close> issued at \<open>now\<close>: a timeout that is not positive deletes the
  key at once. A sorted set left without members does not exist as a key either.
\<close>

definition expire :: "zset \<Rightarrow> int \<Rightarrow> int \<Rightarrow> redis_key" where
  "expire z now seconds =
     (if z = [] \<or> seconds \<le> 0 then no_key
      else \<lparr>members = z, expire_at = Some (now + seconds)\<rparr>)"

record RateLimiter =
  max_requests :: int
  window_seconds :: int

text \<open>\<^verbatim>\<open>RateLimiter.__init__(redis_client, max_requests, window_minutes)\<close>.\<close>

definition RateLimiter_init :: "int \<Rightarrow> int \<Rightarrow> RateLimiter" where
  "RateLimiter_init max_reqs window_minutes =
     \<lparr>max_requests = max_reqs, window_seconds = window_minutes * 60\<rparr>"

text \<open>
  The exceptions of the HTTP layer: a status code and a detail text. The text of
  \<^verbatim>\<open>check_rate_limit\<close> is built from \<^verbatim>\<open>max_requests\<close> and
  \<^verbatim>\<open>window_seconds // 60\<close>, which the model keeps as numbers; the other text used here is
  \<^verbatim>\<open>"Task not found"\<close>.
\<close>

datatype http_detail = RateLimitExceeded int int | TaskNotFound

datatype http_exception = HTTPException (status_code: nat) (detail: http_detail)

text \<open>
  The four queued commands of the pipeline, run in order at time \<open>now\<close>:
  \<^verbatim>\<open>zremrangebyscore(key, 0, window_start)\<close>, \<^verbatim>\<open>zcard(key)\<close>,
  \<^verbatim>\<open>zadd(key, {str(current_time): current_time})\<close>, \<^verbatim>\<open>expire(key, window_seconds)\<close>.
  The result is \<^verbatim>\<open>results[1]\<close>, the count, and the store after all four.
\<close>

definition pipeline_execute :: "RateLimiter \<Rightarrow> int \<Rightarrow> string \<Rightarrow> redis \<Rightarrow> int \<times> redis" where
  "pipeline_execute rl current_time key r =
     (let window_start = current_time - window_seconds rl;
          z1 = zremrangebyscore (members (live current_time (r key))) 0 window_start;
          request_count = zcard z1;
          z2 = zadd z1 current_time current_time
      in (request_count, r(key := expire z2 current_time (window_seconds rl))))"

text \<open>
  \<^verbatim>\<open>check_rate_limit(key)\<close> at time \<open>current_time\<close>. \<open>redis_up = False\<close> is the branch in
  which the pipeline raises \<^verbatim>\<open>redis.RedisError\<close>: the error is printed and the call returns
  normally, with the store as it was. \<open>Inl\<close> is the raised \<^verbatim>\<open>HTTPException\<close>, \<open>Inr ()\<close>
  the normal return.
\<close>

definition check_rate_limit ::
  "RateLimiter \<Rightarrow> bool \<Rightarrow> int \<Rightarrow> string \<Rightarrow> redis \<Rightarrow> (http_exception + unit) \<times> redis" where
  "check_rate_limit rl redis_up current_time key r =
     (if \<not> redis_up then (Inr (), r)
      else
        (let (request_count, r') = pipeline_execute rl current_time key r
         in if request_count \<ge> max_requests rl
            then (Inl (HTTPException 429 (RateLimitExceeded (max_requests rl) (window_seconds rl div 60))), r')
            else (Inr (), r')))"

text \<open>Whether a call was let through.\<close>

definition allowed :: "(http_exception + unit) \<Rightarrow> bool" where
  "allowed res = (case res of Inl _ \<Rightarrow> False | Inr _ \<Rightarrow> True)"

text \<open>
  A sequence of calls from one key at the given times, against a reachable Redis: the
  outcomes in order, and the store after the last call.
\<close>

fun check_sequence ::
  "RateLimiter \<Rightarrow> string \<Rightarrow> int list \<Rightarrow> redis \<Rightarrow> bool list \<times> redis" where
  "check_sequence rl key [] r = ([], r)"
| "check_sequence rl key (t # ts) r =
     (let (res, r') = check_rate_limit rl True t key r;
          (outs, r'') = check_sequence rl key ts r'
      in (allowed res # outs, r''))"

text \<open>
  The content of a key after calls at the times \<open>ts\<close>, each recorded under its own
  second, with the deadline \<open>d\<close>.
\<close>

definition key_state :: "int list \<Rightarrow> int \<Rightarrow> redis_key" where
  "key_state ts d = \<lparr>members = map (\<lambda>t. (t, t)) ts, expire_at = Some d\<rparr>"

section \<open>Transcription core (test.py, class AudioTranscriber)\<close>

subsection \<open>Numbers and strings of the source\<close>

text \<open>
  Times, durations and scores are Python floats. The model computes with real numbers:
  sums, differences and comparisons are exact. \<^verbatim>\<open>round(x, 2)\<close> rounds to the nearest
  hundredth, a tie going to the even neighbour.
\<close>

definition round_half_even :: "real \<Rightarrow> int" where
  "round_half_even y =
     (let f = \<lfloor>y\<rfloor>; d = y - of_int f
      in if d < 1 / 2 then f
         else if 1 / 2 < d then f + 1
         else if even f then f else f + 1)"

definition py_round2 :: "real \<Rightarrow> real" where
  "py_round2 x = of_int (round_half_even (x * 100)) / 100"

text \<open>A number of whole hundredths.\<close>

definition hundredths :: "real \<Rightarrow> bool" where
  "hundredths x = (x * 100 = of_int \<lfloor>x * 100\<rfloor>)"

text \<open>
  The characters \<^verbatim>\<open>str.isspace\<close> accepts among the first 256 code points: tab, line
  feed, vertical tab, form feed, carriage return, the four separators 28 to 31, the
  space, 133 and 160.
\<close>

definition isspace :: "char \<Rightarrow> bool" where
  "isspace c =
     (let n = of_char c :: nat
      in (9 \<le> n \<and> n \<le> 13) \<or> (28 \<le> n \<and> n \<le> 32) \<or> n = 133 \<or> n = 160)"

text \<open>\<^verbatim>\<open>s.strip()\<close>: without the whitespace at both ends.\<close>

definition py_strip :: "string \<Rightarrow> string" where
  "py_strip s = rev (dropWhile isspace (rev (dropWhile isspace s)))"

text \<open>A text with no whitespace at either end.\<close>

definition stripped :: "string \<Rightarrow> bool" where
  "stripped s = (s = [] \<or> \<not> isspace (hd s) \<and> \<not> isspace (last s))"

text \<open>
  \<^verbatim>\<open>s.split()\<close>: the maximal runs of characters that are not whitespace, in order.
  \<open>cur\<close> is the run being read.
\<close>

fun split_from :: "string \<Rightarrow> string \<Rightarrow> string list" where
  "split_from cur [] = (if cur = [] then [] else [cur])"
| "split_from cur (c # cs) =
     (if isspace c then (if cur = [] then split_from [] cs else cur # split_from [] cs)
      else split_from (cur @ [c]) cs)"

definition py_split :: "string \<Rightarrow> string list" where
  "py_split s = split_from [] s"

text \<open>\<^verbatim>\<open>enumerate(xs)\<close>.\<close>

definition enumerate_from0 :: "'a list \<Rightarrow> (nat \<times> 'a) list" where
  "enumerate_from0 xs = zip [0..<length xs] xs"

subsection \<open>Data of the transcription\<close>

text \<open>A word as Whisper reports it: \<^verbatim>\<open>{"word", "start", "end"}\<close>.\<close>

record word_info =
  wi_word :: string
  wi_start :: real
  wi_end :: real

text \<open>
  A Whisper segment. The keys \<^verbatim>\<open>"words"\<close> and \<^verbatim>\<open>"avg_logprob"\<close> may be missing.
\<close>

record segment =
  seg_start :: real
  seg_end :: real
  seg_text :: string
  seg_words :: "word_info list option"
  seg_avg_logprob :: "real option"

text \<open>The result of Whisper; both keys may be missing.\<close>

record whisper_result =
  wr_language :: "string option"
  wr_segments :: "segment list option"

text \<open>
  The mapping from speaker label to intervals is a Python dictionary, which iterates in
  the order in which its keys were first inserted: a list of pairs with distinct keys.
\<close>

type_synonym speaker_segments = "(string \<times> (real \<times> real) list) list"

text \<open>An entry of the transcript: \<^verbatim>\<open>{"word", "start", "end", "speaker"}\<close>.\<close>

record transcript_word =
  tw_word :: string
  tw_start :: real
  tw_end :: real
  tw_speaker :: string

text \<open>An entry of the speaker summary: \<^verbatim>\<open>{"id", "total_sec"}\<close>.\<close>

record speaker_stat =
  sp_id :: string
  sp_total_sec :: real

text \<open>The result of \<^verbatim>\<open>process_audio\<close>.\<close>

record transcription =
  res_language :: string
  res_duration_sec :: real
  res_transcript :: "transcript_word list"
  res_speakers :: "speaker_stat list"
  res_confidence :: real

subsection \<open>perform\_diarization\<close>

text \<open>
  \<^verbatim>\<open>f"speaker_{speaker_id}"\<close> in the fallback loop, where \<^verbatim>\<open>speaker_id\<close> only ever is
  1 or 2.
\<close>

definition speaker_name :: "nat \<Rightarrow> string" where
  "speaker_name speaker_id = ''speaker_'' @ (if speaker_id = 1 then ''1'' else ''2'')"

text \<open>
  The \<^verbatim>\<open>while current_time < duration\<close> loop of the fallback: the list \<^verbatim>\<open>segments\<close>
  it appends to, from \<open>current_time\<close> and \<open>speaker_id\<close> on.
\<close>

function fallback_loop :: "real \<Rightarrow> real \<Rightarrow> nat \<Rightarrow> (string \<times> real \<times> real) list" where
  "fallback_loop duration current_time speaker_id =
     (if current_time < duration then
        (let end_time = min (current_time + 30) duration
         in (speaker_name speaker_id, current_time, end_time)
            # fallback_loop duration end_time (if speaker_id = 1 then 2 else 1))
      else [])"
  by pat_completeness auto
termination
proof (relation "measure (\<lambda>(duration, current_time, speaker_id).
                   nat \<lceil>(duration - current_time) / 30\<rceil>)")
  show "wf (measure (\<lambda>(duration :: real, current_time :: real, speaker_id :: nat).
                   nat \<lceil>(duration - current_time) / 30\<rceil>))"
    by simp
next
  fix duration current_time :: real and speaker_id :: nat and end_time :: real
  assume lt: "current_time < duration"
    and e: "end_time = min (current_time + 30) duration"
  have pos: "0 < \<lceil>(duration - current_time) / 30\<rceil>"
    using lt by (simp add: ceiling_less_iff)
  have "\<lceil>(duration - end_time) / 30\<rceil> < \<lceil>(duration - current_time) / 30\<rceil>"
  proof (cases "current_time + 30 \<le> duration")
    case True
    then have "end_time = current_time + 30"
      using e by simp
    then have eq: "(duration - end_time) / 30 = (duration - current_time) / 30 - 1"
      by (simp add: diff_divide_distrib add_divide_distrib)
    have "\<lceil>(duration - end_time) / 30\<rceil> = \<lceil>(duration - current_time) / 30 - 1\<rceil>"
      by (simp only: eq)
    also have "\<dots> = \<lceil>(duration - current_time) / 30\<rceil> - 1"
      by (rule ceiling_diff_one)
    finally show ?thesis
      by linarith
  next
    case False
    then have "end_time = duration"
      using e by simp
    then show ?thesis
      using pos by simp
  qed
  then show "((duration, end_time, if speaker_id = 1 then 2 else 1),
              (duration, current_time, speaker_id))
             \<in> measure (\<lambda>(duration, current_time, speaker_id).
                   nat \<lceil>(duration - current_time) / 30\<rceil>)"
    using pos by simp
qed

text \<open>
  \<^verbatim>\<open>if speaker not in speaker_segments: speaker_segments[speaker] = []\<close> followed by
  \<^verbatim>\<open>speaker_segments[speaker].append((start, end))\<close>.
\<close>

fun dict_append :: "speaker_segments \<Rightarrow> string \<Rightarrow> real \<times> real \<Rightarrow> speaker_segments" where
  "dict_append [] k v = [(k, [v])]"
| "dict_append ((k', vs) # d) k v =
     (if k' = k then (k', vs @ [v]) # d else (k', vs) # dict_append d k v)"

text \<open>The loop that turns the list of labelled segments into the dictionary.\<close>

fun group_segments :: "speaker_segments \<Rightarrow> (string \<times> real \<times> real) list \<Rightarrow> speaker_segments" where
  "group_segments d [] = d"
| "group_segments d ((speaker, start, end) # rest) =
     group_segments (dict_append d speaker (start, end)) rest"

text \<open>
  What the pyannote pipeline does when it is called on the recording: it yields its
  tracks as (start, end, label), or it raises.
\<close>

datatype diarization = Tracks "(real \<times> real \<times> string) list" | Raises string

text \<open>
  \<^verbatim>\<open>speaker.split('_')[-1] if '_' in speaker else speaker\<close>: what follows the last
  underscore.
\<close>

definition label_suffix :: "string \<Rightarrow> string" where
  "label_suffix speaker =
     (if CHR ''_'' \<in> set speaker then rev (takeWhile (\<lambda>c. c \<noteq> CHR ''_'') (rev speaker))
      else speaker)"

text \<open>
  \<^verbatim>\<open>perform_diarization\<close>. \<open>pipeline = None\<close> is \<^verbatim>\<open>self.diarization_pipeline is None\<close>;
  \<open>duration\<close> is the length \<^verbatim>\<open>load_audio\<close> reports for the recording.
\<close>

definition perform_diarization :: "diarization option \<Rightarrow> real \<Rightarrow> speaker_segments" where
  "perform_diarization pipeline duration =
     (case pipeline of
        None \<Rightarrow> group_segments [] (fallback_loop duration 0 1)
      | Some (Tracks tracks) \<Rightarrow>
          group_segments []
            (map (\<lambda>(start, end, speaker). (''speaker_'' @ label_suffix speaker, start, end)) tracks)
      | Some (Raises e) \<Rightarrow> [(''speaker_1'', [(0, 999999)])])"

subsection \<open>assign\_speakers\_to\_words\<close>

text \<open>The words of the segments that carry the key \<^verbatim>\<open>"words"\<close>.\<close>

definition timestamped_words :: "segment list \<Rightarrow> word_info list" where
  "timestamped_words segs =
     concat (map (\<lambda>seg. case seg_words seg of None \<Rightarrow> [] | Some ws \<Rightarrow> ws) segs)"

text \<open>The words made from one segment when there are no word-level timestamps.\<close>

definition synthesize_words :: "segment \<Rightarrow> word_info list" where
  "synthesize_words seg =
     (let words = py_split (seg_text seg);
          segment_duration = seg_end seg - seg_start seg;
          word_duration = (if words \<noteq> [] then segment_duration / of_nat (length words) else 0)
      in map (\<lambda>(i, word).
                \<lparr>wi_word = word,
                 wi_start = seg_start seg + of_nat i * word_duration,
                 wi_end = seg_start seg + (of_nat i + 1) * word_duration\<rparr>)
             (enumerate_from0 words))"

text \<open>\<^verbatim>\<open>whisper_result.get("segments", [])\<close>.\<close>

definition whisper_segments :: "whisper_result \<Rightarrow> segment list" where
  "whisper_segments wr = (case wr_segments wr of None \<Rightarrow> [] | Some segs \<Rightarrow> segs)"

text \<open>\<^verbatim>\<open>all_words\<close> as it stands before the assignment loop.\<close>

definition all_words :: "whisper_result \<Rightarrow> word_info list" where
  "all_words wr =
     (let ws = timestamped_words (whisper_segments wr)
      in if ws = [] then concat (map synthesize_words (whisper_segments wr)) else ws)"

text \<open>
  The inner loop over the intervals of one speaker: the first interval that holds
  \<open>word_mid\<close> sets \<^verbatim>\<open>assigned_speaker\<close> and ends the loop.
\<close>

fun scan_intervals :: "string \<Rightarrow> string \<Rightarrow> real \<Rightarrow> (real \<times> real) list \<Rightarrow> string" where
  "scan_intervals assigned_speaker speaker_id word_mid [] = assigned_speaker"
| "scan_intervals assigned_speaker speaker_id word_mid ((s_start, s_end) # rest) =
     (if s_start \<le> word_mid \<and> word_mid \<le> s_end then speaker_id
      else scan_intervals assigned_speaker speaker_id word_mid rest)"

text \<open>
  The outer loop over \<^verbatim>\<open>speaker_segments.items()\<close>: it ends as soon as
  \<^verbatim>\<open>assigned_speaker != "speaker_1"\<close>.
\<close>

fun scan_speakers :: "string \<Rightarrow> real \<Rightarrow> speaker_segments \<Rightarrow> string" where
  "scan_speakers assigned_speaker word_mid [] = assigned_speaker"
| "scan_speakers assigned_speaker word_mid ((speaker_id, segments) # rest) =
     (let assigned = scan_intervals assigned_speaker speaker_id word_mid segments
      in if assigned \<noteq> ''speaker_1'' then assigned
         else scan_speakers assigned word_mid rest)"

definition assign_word :: "speaker_segments \<Rightarrow> word_info \<Rightarrow> transcript_word" where
  "assign_word speaker_segs w =
     (let word_start = wi_start w;
          word_end = wi_end w;
          word_mid = (word_start + word_end) / 2;
          assigned_speaker = scan_speakers ''speaker_1'' word_mid speaker_segs
      in \<lparr>tw_word = py_strip (wi_word w),
          tw_start = py_round2 word_start,
          tw_end = py_round2 word_end,
          tw_speaker = assigned_speaker\<rparr>)"

definition assign_speakers_to_words :: "whisper_result \<Rightarrow> speaker_segments \<Rightarrow> transcript_word list" where
  "assign_speakers_to_words wr speaker_segs = map (assign_word speaker_segs) (all_words wr)"

text \<open>
  Following the spec's words, for comparison with \<open>scan_speakers\<close>: the owner of the
  first interval, in the scan order over speakers, that holds \<open>m\<close>.
\<close>

fun first_interval_owner :: "real \<Rightarrow> speaker_segments \<Rightarrow> string option" where
  "first_interval_owner m [] = None"
| "first_interval_owner m ((speaker_id, segments) # rest) =
     (if list_ex (\<lambda>(s_start, s_end). s_start \<le> m \<and> m \<le> s_end) segments then Some speaker_id
      else first_interval_owner m rest)"

subsection \<open>calculate\_speaker\_stats\<close>

text \<open>
  \<^verbatim>\<open>if speaker not in speaker_times: speaker_times[speaker] = 0.0\<close> followed by
  \<^verbatim>\<open>speaker_times[speaker] += duration\<close>, on a dictionary in insertion order.
\<close>

fun add_time :: "(string \<times> real) list \<Rightarrow> string \<Rightarrow> real \<Rightarrow> (string \<times> real) list" where
  "add_time [] speaker duration = [(speaker, 0 + duration)]"
| "add_time ((k, t) # d) speaker duration =
     (if k = speaker then (k, t + duration) # d else (k, t) # add_time d speaker duration)"

fun speaker_times :: "(string \<times> real) list \<Rightarrow> transcript_word list \<Rightarrow> (string \<times> real) list" where
  "speaker_times d [] = d"
| "speaker_times d (word # rest) =
     speaker_times (add_time d (tw_speaker word) (tw_end word - tw_start word)) rest"

text \<open>
  \<^verbatim>\<open>speakers.sort(key=lambda x: x["total_sec"], reverse=True)\<close> is a stable sort: entries
  with the same total keep their order.
\<close>

definition calculate_speaker_stats :: "transcript_word list \<Rightarrow> speaker_stat list" where
  "calculate_speaker_stats transcript_words =
     sort_key (\<lambda>s. - sp_total_sec s)
       (map (\<lambda>(speaker_id, total_time). \<lparr>sp_id = speaker_id, sp_total_sec = py_round2 total_time\<rparr>)
            (speaker_times [] transcript_words))"

subsection \<open>calculate\_confidence and process\_audio\<close>

definition calculate_confidence :: "whisper_result \<Rightarrow> real" where
  "calculate_confidence wr =
     (case wr_segments wr of
        None \<Rightarrow> 85 / 100
      | Some segs \<Rightarrow>
          (let segment_confidences =
                 concat (map (\<lambda>seg. case seg_avg_logprob seg of
                                        None \<Rightarrow> []
                                      | Some lp \<Rightarrow> [max 0 (min 1 (exp lp))]) segs)
           in if segment_confidences \<noteq> []
              then py_round2 (sum_list segment_confidences / of_nat (length segment_confidences))
              else 85 / 100))"

text \<open>
  What the transcriber meets for one recording: \<^verbatim>\<open>load_audio\<close> gives the duration or
  raises, \<^verbatim>\<open>transcribe_with_whisper\<close> gives Whisper's result or raises, and the
  diarization pipeline is missing, yields tracks or raises. An exception is its text.
\<close>

record audio_input =
  au_duration :: "string + real"
  au_whisper :: "string + whisper_result"
  au_pipeline :: "diarization option"

definition process_audio :: "audio_input \<Rightarrow> string + transcription" where
  "process_audio au =
     (case au_duration au of
        Inl e \<Rightarrow> Inl e
      | Inr duration \<Rightarrow>
          (case au_whisper au of
             Inl e \<Rightarrow> Inl e
           | Inr wr \<Rightarrow>
               (let speaker_segs = perform_diarization (au_pipeline au) duration;
                    transcript_words = assign_speakers_to_words wr speaker_segs;
                    speakers = calculate_speaker_stats transcript_words;
                    confidence = calculate_confidence wr;
                    language = (case wr_language wr of None \<Rightarrow> ''en'' | Some l \<Rightarrow> l)
                in Inr \<lparr>res_language = language,
                        res_duration_sec = py_round2 duration,
                        res_transcript = transcript_words,
                        res_speakers = speakers,
                        res_confidence = confidence\<rparr>)))"

section \<open>Job records and their store (app/models.py, app/main.py, app/tasks.py)\<close>

text \<open>
  The rows of the three tables. The columns no code writes (\<^verbatim>\<open>confidence\<close> of a
  word, \<^verbatim>\<open>word_count\<close> of a speaker) are left out. The status is the string of the
  source. \<^verbatim>\<open>progress\<close> has the column default 0. A \<^verbatim>\<open>datetime\<close> is an instant
  of the clock, counted in its smallest unit.
\<close>

type_synonym datetime = int

record TranscriptionSession =
  ts_id :: string
  ts_user_id :: string
  ts_audio_source :: string
  ts_source_type :: string
  ts_status :: string
  ts_progress :: int
  ts_created_at :: datetime
  ts_started_at :: "datetime option"
  ts_completed_at :: "datetime option"
  ts_language :: "string option"
  ts_duration_seconds :: "real option"
  ts_confidence_score :: "real option"
  ts_error_message :: "string option"

record TranscriptWord =
  word_session_id :: string
  word_text :: string
  word_start_time :: real
  word_end_time :: real
  word_speaker_label :: string

record Speaker =
  spk_session_id :: string
  spk_speaker_id :: string
  spk_total_seconds :: real

text \<open>
  The database: the sessions by primary key, and the two child tables in the order in
  which their rows were inserted.
\<close>

record database =
  sessions :: "string \<rightharpoonup> TranscriptionSession"
  transcript_words :: "TranscriptWord list"
  speakers :: "Speaker list"

definition empty_database :: database where
  "empty_database = \<lparr>sessions = Map.empty, transcript_words = [], speakers = []\<rparr>"

text \<open>
  The session \<^verbatim>\<open>create_transcription_task\<close> adds and commits: status
  \<^verbatim>\<open>"pending"\<close>, \<^verbatim>\<open>created_at\<close> the value \<open>now\<close> of \<^verbatim>\<open>datetime.utcnow()\<close>,
  every column it does not name at its default.
\<close>

definition new_session ::
  "string \<Rightarrow> string \<Rightarrow> string \<Rightarrow> string \<Rightarrow> datetime \<Rightarrow> TranscriptionSession" where
  "new_session task_id user_id audio_source source_type now =
     \<lparr>ts_id = task_id, ts_user_id = user_id, ts_audio_source = audio_source,
      ts_source_type = source_type, ts_status = ''pending'', ts_progress = 0,
      ts_created_at = now, ts_started_at = None, ts_completed_at = None,
      ts_language = None, ts_duration_seconds = None, ts_confidence_score = None,
      ts_error_message = None\<rparr>"

definition create_transcription_task ::
  "string \<Rightarrow> string \<Rightarrow> string \<Rightarrow> string \<Rightarrow> datetime \<Rightarrow> database \<Rightarrow> database" where
  "create_transcription_task task_id user_id audio_source source_type now db =
     db\<lparr>sessions := (sessions db)(task_id \<mapsto> new_session task_id user_id audio_source source_type now)\<rparr>"

text \<open>Writing a session back: \<^verbatim>\<open>await db.commit()\<close> after its attributes were set.\<close>

definition commit_session :: "TranscriptionSession \<Rightarrow> database \<Rightarrow> database" where
  "commit_session s db = db\<lparr>sessions := (sessions db)(ts_id s \<mapsto> s)\<rparr>"

text \<open>\<^verbatim>\<open>save_transcription_results\<close>: one row per transcript entry, one per speaker.\<close>

definition save_transcription_results :: "database \<Rightarrow> string \<Rightarrow> transcription \<Rightarrow> database" where
  "save_transcription_results db task_id result =
     db\<lparr>transcript_words := transcript_words db @
            map (\<lambda>word_data.
                   \<lparr>word_session_id = task_id, word_text = tw_word word_data,
                    word_start_time = tw_start word_data, word_end_time = tw_end word_data,
                    word_speaker_label = tw_speaker word_data\<rparr>)
                (res_transcript result),
        speakers := speakers db @
            map (\<lambda>speaker_data.
                   \<lparr>spk_session_id = task_id, spk_speaker_id = sp_id speaker_data,
                    spk_total_seconds = sp_total_sec speaker_data\<rparr>)
                (res_speakers result)\<rparr>"

text \<open>
  \<^verbatim>\<open>x or default\<close> on a nullable column: the default stands in for \<^verbatim>\<open>None\<close> and for
  every other value Python counts as false (the empty string, zero).
\<close>

definition py_or :: "'a option \<Rightarrow> ('a \<Rightarrow> bool) \<Rightarrow> 'a \<Rightarrow> 'a" where
  "py_or x falsy d = (case x of None \<Rightarrow> d | Some v \<Rightarrow> if falsy v then d else v)"

text \<open>
  \<^verbatim>\<open>get_transcription_result\<close>. The two queries filter by session and order by
  \<^verbatim>\<open>start_time\<close>, and by \<^verbatim>\<open>total_seconds\<close> descending. SQL leaves the order of rows
  with equal keys open; the model returns them in insertion order.
\<close>

definition get_transcription_result :: "string \<Rightarrow> database \<Rightarrow> http_exception + transcription" where
  "get_transcription_result task_id db =
     (case sessions db task_id of
        None \<Rightarrow> Inl (HTTPException 404 TaskNotFound)
      | Some session \<Rightarrow>
          (let words = sort_key word_start_time
                         (filter (\<lambda>w. word_session_id w = task_id) (transcript_words db));
               spks = sort_key (\<lambda>s. - spk_total_seconds s)
                         (filter (\<lambda>s. spk_session_id s = task_id) (speakers db));
               transcript = map (\<lambda>word. \<lparr>tw_word = word_text word, tw_start = word_start_time word,
                                          tw_end = word_end_time word,
                                          tw_speaker = word_speaker_label word\<rparr>) words;
               speakers_data = map (\<lambda>speaker. \<lparr>sp_id = spk_speaker_id speaker,
                                                 sp_total_sec = spk_total_seconds speaker\<rparr>) spks
           in Inr \<lparr>res_language = py_or (ts_language session) (\<lambda>l. l = []) ''en'',
                   res_duration_sec = py_or (ts_duration_seconds session) (\<lambda>d. d = 0) 0,
                   res_transcript = transcript,
                   res_speakers = speakers_data,
                   res_confidence = py_or (ts_confidence_score session) (\<lambda>c. c = 0) (85 / 100)\<rparr>))"

subsection \<open>process\_transcription\<close>

text \<open>
  What one run of the task meets, besides the database: whether
  \<^verbatim>\<open>get_transcriber\<close> raises, the recording, whether \<^verbatim>\<open>save_transcription_results\<close>
  raises, whether the \<open>n\<close>-th \<^verbatim>\<open>current_task.update_state\<close> of the \<^verbatim>\<open>try\<close> block
  raises (0, 1, 2 for the progress reports, 3 for the report of success), whether the
  handler's own \<^verbatim>\<open>db.get\<close> and \<^verbatim>\<open>db.commit\<close> go through, and what the \<open>k\<close>-th
  call of \<^verbatim>\<open>datetime.utcnow()\<close> of the run returns. An exception is its text.
  The commits that \<^verbatim>\<open>process_transcription\<close> itself makes in its \<^verbatim>\<open>try\<close> block are
  taken to succeed.
\<close>

record run_env =
  env_transcriber :: "string option"
  env_audio :: audio_input
  env_save :: "string option"
  env_report :: "nat \<Rightarrow> string option"
  env_failure_write :: bool
  env_utcnow :: "nat \<Rightarrow> datetime"

text \<open>
  The outcome of a run: what the task returns or raises, the database afterwards, and the
  states of the session as committed, in order.
\<close>

type_synonym run_result = "(string + transcription) \<times> database \<times> TranscriptionSession list"

text \<open>
  The \<^verbatim>\<open>except Exception as e\<close> handler, entered with the commits made so far: it
  reads the session again, marks it failed with the text of the exception and the time
  \<open>now\<close> of its \<^verbatim>\<open>datetime.utcnow()\<close> as \<^verbatim>\<open>completed_at\<close>, and commits; an
  exception of these steps is swallowed. Then the exception is raised again.

  The handler works on the \<^verbatim>\<open>AsyncSession\<close> of the \<^verbatim>\<open>try\<close> block and never calls
  \<^verbatim>\<open>rollback\<close>. \<open>needs_rollback\<close> says that the exception came out of a commit on
  that session: the session then refuses every further use until it is rolled back, so
  the handler's own steps raise and nothing is written.
\<close>

definition handle_failure ::
  "run_env \<Rightarrow> string \<Rightarrow> database \<Rightarrow> TranscriptionSession list \<Rightarrow> bool \<Rightarrow> datetime \<Rightarrow> string
     \<Rightarrow> run_result" where
  "handle_failure env task_id db commits needs_rollback now e =
     (if \<not> needs_rollback \<and> env_failure_write env then
        (case sessions db task_id of
           None \<Rightarrow> (Inl e, db, commits)
         | Some session \<Rightarrow>
             (let failed = session\<lparr>ts_status := ''failed'', ts_error_message := Some e,
                                   ts_completed_at := Some now\<rparr>
              in (Inl e, commit_session failed db, commits @ [failed])))
      else (Inl e, db, commits))"

text \<open>The text of \<^verbatim>\<open>Exception(f"Session {task_id} not found")\<close>.\<close>

definition session_not_found :: "string \<Rightarrow> string" where
  "session_not_found task_id = ''Session '' @ task_id @ '' not found''"

text \<open>
  The run. \<^verbatim>\<open>save_transcription_results\<close> only adds rows and commits
  (tasks.py, line 154), so when it raises, it is this commit that failed: no row is
  written and the handler is entered with a session that needs a rollback. Every other
  exception leaves the session usable. The first \<^verbatim>\<open>datetime.utcnow()\<close> of a run is
  the one of \<^verbatim>\<open>started_at\<close>; the second is the one of \<^verbatim>\<open>completed_at\<close>, in the
  \<^verbatim>\<open>try\<close> block or in the handler; a third is made by the handler when the report of
  success raises.
\<close>

definition process_transcription :: "run_env \<Rightarrow> string \<Rightarrow> database \<Rightarrow> run_result" where
  "process_transcription env task_id db =
     (case sessions db task_id of
        None \<Rightarrow> handle_failure env task_id db [] False (env_utcnow env 0) (session_not_found task_id)
      | Some session \<Rightarrow>
          (let s1 = session\<lparr>ts_status := ''processing'', ts_started_at := Some (env_utcnow env 0),
                            ts_progress := 10\<rparr>;
               db1 = commit_session s1 db
           in case env_report env 0 of
                Some e \<Rightarrow> handle_failure env task_id db1 [s1] False (env_utcnow env 1) e
              | None \<Rightarrow>
           (case env_transcriber env of
                Some e \<Rightarrow> handle_failure env task_id db1 [s1] False (env_utcnow env 1) e
              | None \<Rightarrow>
           (let s2 = s1\<lparr>ts_progress := 20\<rparr>;
                db2 = commit_session s2 db1
            in case env_report env 1 of
                Some e \<Rightarrow> handle_failure env task_id db2 [s1, s2] False (env_utcnow env 1) e
              | None \<Rightarrow>
           (case process_audio (env_audio env) of
                Inl e \<Rightarrow> handle_failure env task_id db2 [s1, s2] False (env_utcnow env 1) e
              | Inr result \<Rightarrow>
           (let s3 = s2\<lparr>ts_progress := 80\<rparr>;
                db3 = commit_session s3 db2
            in case env_report env 2 of
                Some e \<Rightarrow> handle_failure env task_id db3 [s1, s2, s3] False (env_utcnow env 1) e
              | None \<Rightarrow>
           (case env_save env of
                Some e \<Rightarrow> handle_failure env task_id db3 [s1, s2, s3] True (env_utcnow env 1) e
              | None \<Rightarrow>
           (let db4 = save_transcription_results db3 task_id result;
                s4 = s3\<lparr>ts_status := ''completed'', ts_completed_at := Some (env_utcnow env 1),
                        ts_progress := 100,
                        ts_language := Some (res_language result),
                        ts_duration_seconds := Some (res_duration_sec result),
                        ts_confidence_score := Some (res_confidence result)\<rparr>;
                db5 = commit_session s4 db4
            in case env_report env 3 of
                Some e \<Rightarrow> handle_failure env task_id db5 [s1, s2, s3, s4] False (env_utcnow env 2) e
              | None \<Rightarrow> (Inr result, db5, [s1, s2, s3, s4])))))))))"

text \<open>
  The life cycle of the claims about jobs, on a sequence of states of one session: the
  steps allowed between two states that follow each other, and what every single state
  has to satisfy.
\<close>

definition allowed_step :: "TranscriptionSession \<Rightarrow> TranscriptionSession \<Rightarrow> bool" where
  "allowed_step a b =
     ((ts_status a = ''pending'' \<and> ts_status b = ''processing''
       \<or> ts_status a = ''processing''
          \<and> ts_status b \<in> {''processing'', ''completed'', ''failed''})
      \<and> ts_progress a \<le> ts_progress b)"

definition progress_matches_status :: "TranscriptionSession \<Rightarrow> bool" where
  "progress_matches_status a = ((ts_progress a = 100) = (ts_status a = ''completed''))"

fun lifecycle :: "TranscriptionSession list \<Rightarrow> bool" where
  "lifecycle [] = True"
| "lifecycle [a] = progress_matches_status a"
| "lifecycle (a # b # rest) =
     (progress_matches_status a \<and> allowed_step a b \<and> lifecycle (b # rest))"

section \<open>Notions the properties are stated with\<close>

text \<open>The value a dictionary in insertion order holds for a key.\<close>

definition dict_lookup :: "('k \<times> 'v list) list \<Rightarrow> 'k \<Rightarrow> 'v list" where
  "dict_lookup d k = (case map_of d k of None \<Rightarrow> [] | Some vs \<Rightarrow> vs)"

text \<open>
  The \<open>k\<close>-th window of 30 seconds of a recording of the given duration, and the
  speaker it goes to when the two speakers take turns.
\<close>

definition window_interval :: "real \<Rightarrow> nat \<Rightarrow> real \<times> real" where
  "window_interval duration k = (30 * of_nat k, min (30 * of_nat k + 30) duration)"

definition window_speaker :: "nat \<Rightarrow> string" where
  "window_speaker k = (if even k then ''speaker_1'' else ''speaker_2'')"

definition window_count :: "real \<Rightarrow> nat" where
  "window_count duration = nat \<lceil>duration / 30\<rceil>"

text \<open>The speaking time of the words with a given label.\<close>

definition speaking_time :: "string \<Rightarrow> transcript_word list \<Rightarrow> real" where
  "speaking_time k ws = (\<Sum>w \<leftarrow> filter (\<lambda>w. tw_speaker w = k) ws. tw_end w - tw_start w)"

text \<open>An entry of the transcript as the assignment leaves it.\<close>

definition clean_entry :: "transcript_word \<Rightarrow> bool" where
  "clean_entry e = (stripped (tw_word e) \<and> hundredths (tw_start e) \<and> hundredths (tw_end e))"

section \<open>A small recording, for concrete runs\<close>

text \<open>
  Two seconds of speech, two words with word-level timestamps, an average log
  probability of 0 and no diarization pipeline.
\<close>

definition example_whisper :: whisper_result where
  "example_whisper =
     \<lparr>wr_language = Some ''en'',
      wr_segments = Some
        [\<lparr>seg_start = 0, seg_end = 2, seg_text = '' hi there'',
          seg_words = Some [\<lparr>wi_word = '' hi'', wi_start = 123 / 1000, wi_end = 1 / 2\<rparr>,
                            \<lparr>wi_word = '' there'', wi_start = 1 / 2, wi_end = 1996 / 1000\<rparr>],
          seg_avg_logprob = Some 0\<rparr>]\<rparr>"

definition example_audio :: audio_input where
  "example_audio =
     \<lparr>au_duration = Inr 2, au_whisper = Inr example_whisper, au_pipeline = None\<rparr>"

definition example_result :: transcription where
  "example_result =
     \<lparr>res_language = ''en'', res_duration_sec = 2,
      res_transcript =
        [\<lparr>tw_word = ''hi'', tw_start = 12 / 100, tw_end = 1 / 2, tw_speaker = ''speaker_1''\<rparr>,
         \<lparr>tw_word = ''there'', tw_start = 1 / 2, tw_end = 2, tw_speaker = ''speaker_1''\<rparr>],
      res_speakers = [\<lparr>sp_id = ''speaker_1'', sp_total_sec = 188 / 100\<rparr>],
      res_confidence = 1\<rparr>"

text \<open>A run in which nothing raises, started at the instant 2000 of a clock that ticks once a call.\<close>

definition example_env :: run_env where
  "example_env =
     \<lparr>env_transcriber = None, env_audio = example_audio, env_save = None,
      env_report = (\<lambda>n. None), env_failure_write = True,
      env_utcnow = (\<lambda>k. 2000 + int k)\<rparr>"


text \<open>
  The exception of the persistence step in a run: every stage and report before it goes
  through and \<^verbatim>\<open>save_transcription_results\<close> raises.
\<close>

definition persistence_failure :: "run_env \<Rightarrow> string option" where
  "persistence_failure env =
     (case env_report env 0 of
        Some r \<Rightarrow> None
      | None \<Rightarrow>
     (case env_transcriber env of
        Some e \<Rightarrow> None
      | None \<Rightarrow>
     (case env_report env 1 of
        Some r \<Rightarrow> None
      | None \<Rightarrow>
     (case process_audio (env_audio env) of
        Inl e \<Rightarrow> None
      | Inr result \<Rightarrow>
     (case env_report env 2 of
        Some r \<Rightarrow> None
      | None \<Rightarrow> env_save env)))))"

text \<open>The parts of the outcome of a run.\<close>

definition run_outcome :: "run_result \<Rightarrow> string + transcription" where
  "run_outcome r = fst r"

definition run_database :: "run_result \<Rightarrow> database" where
  "run_database r = fst (snd r)"

definition run_commits :: "run_result \<Rightarrow> TranscriptionSession list" where
  "run_commits r = snd (snd r)"

text \<open>
  A database with one job, as \<^verbatim>\<open>create_transcription_task\<close> leaves it at the instant
  1000, and the same
  database after a run in which nothing raises.
\<close>

definition example_db :: database where
  "example_db = create_transcription_task ''job'' ''user'' ''a.wav'' ''upload'' 1000 empty_database"

definition example_done_db :: database where
  "example_done_db = run_database (process_transcription example_env ''job'' example_db)"

text \<open>
  The same recording, understood so badly that the average log probability of its
  segment is \<open>-8\<close>.
\<close>

definition faint_whisper :: whisper_result where
  "faint_whisper =
     \<lparr>wr_language = Some ''en'',
      wr_segments = Some
        [\<lparr>seg_start = 0, seg_end = 2, seg_text = '' hi there'',
          seg_words = Some [\<lparr>wi_word = '' hi'', wi_start = 123 / 1000, wi_end = 1 / 2\<rparr>,
                            \<lparr>wi_word = '' there'', wi_start = 1 / 2, wi_end = 1996 / 1000\<rparr>],
          seg_avg_logprob = Some (- 8)\<rparr>]\<rparr>"

definition faint_audio :: audio_input where
  "faint_audio = \<lparr>au_duration = Inr 2, au_whisper = Inr faint_whisper, au_pipeline = None\<rparr>"

section \<open>Properties of the rate limiter\<close>

lemmas rate_limiter_defs =
  check_rate_limit_def pipeline_execute_def zremrangebyscore_def zcard_def zadd_def
  expire_def live_def no_key_def empty_redis_def RateLimiter_init_def key_state_def

lemma zadd_has_member: "m \<in> fst ` set (zadd z m s)"
  by (force simp: zadd_def)

lemma zadd_not_empty: "zadd z m s \<noteq> []"
  by (auto simp: zadd_def)

text \<open>
  C7, as stated, at a concrete input. With at most one request per minute, a call at
  second 100 is let through; the call at second 101 is denied, and the set of the key then
  holds 101 next to 100, although eviction alone leaves only 100.
\<close>

theorem denied_call_state_counterexample:
  "check_rate_limit (RateLimiter_init 1 1) True 100 ''k'' empty_redis
     = (Inr (), empty_redis(''k'' := key_state [100] 160))
   \<and> fst (check_rate_limit (RateLimiter_init 1 1) True 101 ''k''
            (empty_redis(''k'' := key_state [100] 160)))
     = Inl (HTTPException 429 (RateLimitExceeded 1 1))
   \<and> members (snd (check_rate_limit (RateLimiter_init 1 1) True 101 ''k''
            (empty_redis(''k'' := key_state [100] 160))) ''k'')
     = [(100, 100), (101, 101)]
   \<and> zremrangebyscore
        (members (live 101 ((empty_redis(''k'' := key_state [100] 160)) ''k''))) 0
        (101 - window_seconds (RateLimiter_init 1 1))
     = [(100, 100)]"
  by (simp add: rate_limiter_defs)

text \<open>
  C7, amended. A denied call records its attempt like an allowed one: with a positive
  window, the set of the key after a denied call at time \<open>now\<close> is the set of the
  survivors of the eviction with \<open>now\<close> added by \<^verbatim>\<open>ZADD\<close> (so \<open>now\<close> is a member of
  it), at least \<open>max_requests\<close> entries had survived, no other key is touched, and the
  exception is the 429 one.
\<close>

theorem denied_call_records_attempt:
  assumes "check_rate_limit rl up now key r = (Inl e, r')"
    and "0 < window_seconds rl"
  shows "members (r' key) =
           zadd (zremrangebyscore (members (live now (r key))) 0 (now - window_seconds rl))
             now now
         \<and> now \<in> fst ` set (members (r' key))
         \<and> max_requests rl
             \<le> zcard (zremrangebyscore (members (live now (r key))) 0 (now - window_seconds rl))
         \<and> r' = r(key := r' key)
         \<and> e = HTTPException 429 (RateLimitExceeded (max_requests rl) (window_seconds rl div 60))"
  using assms zadd_has_member [of now _ now] zadd_not_empty [of _ now now]
  by (auto simp: check_rate_limit_def pipeline_execute_def Let_def expire_def
      split: if_splits)

theorem denied_call_records_attempt_witness:
  "check_rate_limit (RateLimiter_init 1 1) True 101 ''k'' (empty_redis(''k'' := key_state [100] 160))
     = (Inl (HTTPException 429 (RateLimitExceeded 1 1)), empty_redis(''k'' := key_state [100, 101] 161))
   \<and> 0 < window_seconds (RateLimiter_init 1 1)
   \<and> members ((empty_redis(''k'' := key_state [100, 101] 161)) ''k'') =
       zadd (zremrangebyscore
               (members (live 101 ((empty_redis(''k'' := key_state [100] 160)) ''k''))) 0
               (101 - window_seconds (RateLimiter_init 1 1))) 101 101
   \<and> 101 \<in> fst ` set (members ((empty_redis(''k'' := key_state [100, 101] 161)) ''k''))"
proof -
  have run: "check_rate_limit (RateLimiter_init 1 1) True 101 ''k''
               (empty_redis(''k'' := key_state [100] 160))
             = (Inl (HTTPException 429 (RateLimitExceeded 1 1)), empty_redis(''k'' := key_state [100, 101] 161))"
    by (simp add: rate_limiter_defs)
  have win: "0 < window_seconds (RateLimiter_init 1 1)"
    by (simp add: RateLimiter_init_def)
  from denied_call_records_attempt [OF run win] run win show ?thesis
    by blast
qed

text \<open>
  C8 at the failing input: four calls within the same second. Every call writes the
  member of that second again, so the set never holds more than one entry and the fourth
  call is let through as well.
\<close>

theorem four_calls_same_second_all_allowed:
  "fst (check_sequence (RateLimiter_init 3 1) ''user:u:10.0.0.1''
          [1000, 1000, 1000, 1000] empty_redis)
     = [True, True, True, True]"
  by code_simp

text \<open>
  When the four calls fall into four different seconds within the window, the outcomes
  are the ones of C8, and a call that comes a full window after the denied one is
  let through again.
\<close>

lemma four_calls_distinct_seconds:
  assumes "t1 < t2" "t2 < t3" "t3 < t4" "t4 < t1 + 60" "t4 + 60 \<le> t5"
  shows "fst (check_sequence (RateLimiter_init 3 1) key [t1, t2, t3, t4, t5] empty_redis)
           = [True, True, True, False, True]"
proof -
  let ?rl = "RateLimiter_init 3 1"
  let ?r1 = "empty_redis(key := key_state [t1] (t1 + 60))"
  let ?r2 = "empty_redis(key := key_state [t1, t2] (t2 + 60))"
  let ?r3 = "empty_redis(key := key_state [t1, t2, t3] (t3 + 60))"
  let ?r4 = "empty_redis(key := key_state [t1, t2, t3, t4] (t4 + 60))"
  let ?r5 = "empty_redis(key := key_state [t5] (t5 + 60))"
  have s1: "check_rate_limit ?rl True t1 key empty_redis = (Inr (), ?r1)"
    by (simp add: rate_limiter_defs)
  have s2: "check_rate_limit ?rl True t2 key ?r1 = (Inr (), ?r2)"
    using assms by (simp add: rate_limiter_defs)
  have s3: "check_rate_limit ?rl True t3 key ?r2 = (Inr (), ?r3)"
    using assms by (simp add: rate_limiter_defs)
  have s4: "check_rate_limit ?rl True t4 key ?r3 = (Inl (HTTPException 429 (RateLimitExceeded 3 1)), ?r4)"
    using assms by (simp add: rate_limiter_defs)
  have s5: "check_rate_limit ?rl True t5 key ?r4 = (Inr (), ?r5)"
    using assms by (simp add: rate_limiter_defs)
  show ?thesis
    by (simp add: s1 s2 s3 s4 s5 allowed_def)
qed

text \<open>
  The denied attempt of the fourth call counts against later calls: a call that comes a
  full window after the first call, but not yet after the second, is denied again.
\<close>

lemma denied_attempt_counts_later:
  "fst (check_sequence (RateLimiter_init 3 1) ''k'' [1000, 1010, 1020, 1030, 1065] empty_redis)
     = [True, True, True, False, False]"
  by code_simp

section \<open>Properties of rounding and of the string functions\<close>

lemma round_half_even_of_int: "round_half_even (of_int k) = k"
  by (simp add: round_half_even_def)

lemma hundredths_py_round2: "hundredths (py_round2 x)"
  by (simp add: hundredths_def py_round2_def)

lemma py_round2_hundredths: "hundredths x \<Longrightarrow> py_round2 x = x"
proof -
  assume h: "hundredths x"
  then have "x * 100 = of_int \<lfloor>x * 100\<rfloor>" by (simp add: hundredths_def)
  then have "round_half_even (x * 100) = \<lfloor>x * 100\<rfloor>"
    by (metis round_half_even_of_int)
  then show ?thesis using h by (simp add: py_round2_def hundredths_def)
qed

lemma strip_prefix: "rev (dropWhile P (rev ys)) @ rev (takeWhile P (rev ys)) = ys"
  by (metis rev_append rev_rev_ident takeWhile_dropWhile_id)

lemma stripped_py_strip: "stripped (py_strip s)"
proof (cases "py_strip s = []")
  case True
  then show ?thesis by (simp add: stripped_def)
next
  case False
  let ?ys = "dropWhile isspace s"
  let ?zs = "dropWhile isspace (rev ?ys)"
  have ne: "?zs \<noteq> []" using False by (simp add: py_strip_def)
  have l: "\<not> isspace (last (py_strip s))"
    using ne hd_dropWhile [of isspace "rev ?ys"] by (simp add: py_strip_def last_rev)
  have "?ys = py_strip s @ rev (takeWhile isspace (rev ?ys))"
    using strip_prefix [of isspace ?ys] by (simp add: py_strip_def)
  then have "hd ?ys = hd (py_strip s)" using False
    by (metis hd_append2)
  moreover have "?ys \<noteq> []"
  proof
    assume e: "?ys = []"
    have "py_strip s = rev (dropWhile isspace (rev ?ys))"
      by (simp only: py_strip_def)
    also have "\<dots> = []"
      by (simp only: e rev.simps dropWhile.simps)
    finally show False using False by simp
  qed
  ultimately have h: "\<not> isspace (hd (py_strip s))"
    using hd_dropWhile [of isspace s] by simp
  show ?thesis using h l by (simp add: stripped_def)
qed

lemma split_from_tokens:
  "\<forall>c \<in> set cur. \<not> isspace c \<Longrightarrow> t \<in> set (split_from cur s) \<Longrightarrow> t \<noteq> [] \<and> (\<forall>c \<in> set t. \<not> isspace c)"
proof (induction cur s rule: split_from.induct)
  case (1 cur)
  then show ?case by (simp split: if_splits)
next
  case (2 cur c cs)
  note clean = \<open>\<forall>c\<in>set cur. \<not> isspace c\<close>
  note mem = \<open>t \<in> set (split_from cur (c # cs))\<close>
  have nil: "\<forall>c\<in>set ([] :: string). \<not> isspace c" by simp
  show ?case
  proof (cases "isspace c")
    case True
    show ?thesis
    proof (cases "cur = []")
      case e: True
      from mem True e have "t \<in> set (split_from [] cs)" by simp
      from "2.IH"(1) [OF True e nil this] show ?thesis .
    next
      case ne: False
      from mem True ne have "t = cur \<or> t \<in> set (split_from [] cs)" by simp
      then show ?thesis
      proof
        assume "t = cur"
        then show ?thesis using ne clean by simp
      next
        assume "t \<in> set (split_from [] cs)"
        from "2.IH"(2) [OF True ne nil this] show ?thesis .
      qed
    qed
  next
    case False
    have c': "\<forall>x \<in> set (cur @ [c]). \<not> isspace x" using clean False by simp
    from mem False have "t \<in> set (split_from (cur @ [c]) cs)" by simp
    from "2.IH"(3) [OF False c' this] show ?thesis .
  qed
qed

lemma py_split_tokens: "t \<in> set (py_split s) \<Longrightarrow> t \<noteq> [] \<and> (\<forall>c \<in> set t. \<not> isspace c)"
  using split_from_tokens [of "[]" t s] by (simp add: py_split_def)

section \<open>Properties of the speaker assignment\<close>

text \<open>
  What the two loops compute. The inner loop returns the speaker when one of the
  speaker's intervals holds the midpoint, and what it was given otherwise.
\<close>

lemma scan_intervals_eq:
  "scan_intervals a sid m segs =
     (if list_ex (\<lambda>(s_start, s_end). s_start \<le> m \<and> m \<le> s_end) segs then sid else a)"
  by (induction a sid m segs rule: scan_intervals.induct) simp_all

text \<open>
  The outer loop takes \<^verbatim>\<open>assigned_speaker != "speaker_1"\<close> for "an interval was
  found". So the label of a word is the owner of the first interval that holds the
  midpoint among the speakers other than \<^verbatim>\<open>speaker_1\<close>, and \<^verbatim>\<open>speaker_1\<close> when
  there is none.
\<close>

lemma scan_speakers_eq:
  "scan_speakers ''speaker_1'' m ss =
     (case first_interval_owner m (filter (\<lambda>(k, segs). k \<noteq> ''speaker_1'') ss) of
        None \<Rightarrow> ''speaker_1'' | Some sid \<Rightarrow> sid)"
  by (induction ss) (auto simp: scan_intervals_eq Let_def)

text \<open>A midpoint that no interval holds gets the default label.\<close>

lemma no_interval_default:
  "first_interval_owner m ss = None \<Longrightarrow> scan_speakers ''speaker_1'' m ss = ''speaker_1''"
  by (induction ss) (auto simp: scan_intervals_eq Let_def split: if_splits)

lemma first_owner_none:
  "\<forall>(k, segs) \<in> set ss. \<not> list_ex (\<lambda>(s_start, s_end). s_start \<le> m \<and> m \<le> s_end) segs
   \<Longrightarrow> first_interval_owner m ss = None"
  by (induction ss) auto

lemma first_owner_filter:
  "first_interval_owner m ss = Some sid \<Longrightarrow> P sid
   \<Longrightarrow> \<forall>(k, segs) \<in> set ss. k \<noteq> sid \<longrightarrow> \<not> list_ex (\<lambda>(s_start, s_end). s_start \<le> m \<and> m \<le> s_end) segs
   \<Longrightarrow> first_interval_owner m (filter (\<lambda>(k, segs). P k) ss) = Some sid"
  by (induction ss) (auto split: if_splits)

text \<open>
  A midpoint that only intervals of one speaker hold gets the label of that speaker.
\<close>

lemma single_owner_assigned:
  assumes "first_interval_owner m ss = Some sid"
    and "\<forall>(k, segs) \<in> set ss. k \<noteq> sid \<longrightarrow> \<not> list_ex (\<lambda>(s_start, s_end). s_start \<le> m \<and> m \<le> s_end) segs"
  shows "scan_speakers ''speaker_1'' m ss = sid"
proof (cases "sid = ''speaker_1''")
  case True
  have "\<forall>(k, segs) \<in> set (filter (\<lambda>(k, segs). k \<noteq> ''speaker_1'') ss).
          \<not> list_ex (\<lambda>(s_start, s_end). s_start \<le> m \<and> m \<le> s_end) segs"
    using assms(2) True by auto
  then have "first_interval_owner m (filter (\<lambda>(k, segs). k \<noteq> ''speaker_1'') ss) = None"
    by (rule first_owner_none)
  then show ?thesis using True by (simp add: scan_speakers_eq)
next
  case False
  have "first_interval_owner m (filter (\<lambda>(k, segs). k \<noteq> ''speaker_1'') ss) = Some sid"
    using first_owner_filter [of m ss sid "\<lambda>k. k \<noteq> ''speaker_1''", OF assms(1) False assms(2)] .
  then show ?thesis by (simp add: scan_speakers_eq)
qed

lemma fallback_loop_60: "fallback_loop 60 0 1 = [(''speaker_1'', 0, 30), (''speaker_2'', 30, 60)]"
  by (simp add: fallback_loop.simps [of 60 0] fallback_loop.simps [of 60 30]
      fallback_loop.simps [of 60 60] speaker_name_def)

lemma perform_diarization_fallback_60: "perform_diarization None 60 = [(''speaker_1'', [(0, 30)]), (''speaker_2'', [(30, 60)])]"
  by (simp only: perform_diarization_def option.case fallback_loop_60) simp

text \<open>
  C1 at the failing input. The recording lasts 60 seconds and the diarization pipeline
  is missing, so \<^verbatim>\<open>perform_diarization\<close> gives \<^verbatim>\<open>speaker_1\<close> the window from 0
  to 30 and \<^verbatim>\<open>speaker_2\<close> the window from 30 to 60. A word from 29.5 to 30.5 has the
  midpoint 30. The first interval in scan order that holds 30 is the one of
  \<^verbatim>\<open>speaker_1\<close>; the code assigns \<^verbatim>\<open>speaker_2\<close>.
\<close>

theorem boundary_word_assigned_to_later_speaker:
  "perform_diarization None 60 = [(''speaker_1'', [(0, 30)]), (''speaker_2'', [(30, 60)])]
   \<and> first_interval_owner ((295 / 10 + 305 / 10) / 2) (perform_diarization None 60) = Some ''speaker_1''
   \<and> map tw_speaker
        (assign_speakers_to_words
           \<lparr>wr_language = Some ''en'',
            wr_segments = Some [\<lparr>seg_start = 0, seg_end = 60, seg_text = ''so'',
                                 seg_words = Some [\<lparr>wi_word = '' so'', wi_start = 295 / 10, wi_end = 305 / 10\<rparr>],
                                 seg_avg_logprob = None\<rparr>]\<rparr>
           (perform_diarization None 60))
      = [''speaker_2'']"
  by (simp add: perform_diarization_fallback_60 assign_speakers_to_words_def assign_word_def all_words_def
      whisper_segments_def timestamped_words_def)

lemma synth_length: "length (synthesize_words seg) = length (py_split (seg_text seg))"
  by (simp add: synthesize_words_def enumerate_from0_def Let_def)

lemma synth_nth:
  assumes "i < length (py_split (seg_text seg))"
  shows "synthesize_words seg ! i =
     \<lparr>wi_word = py_split (seg_text seg) ! i,
      wi_start = seg_start seg + of_nat i * ((seg_end seg - seg_start seg) / of_nat (length (py_split (seg_text seg)))),
      wi_end = seg_start seg + (of_nat i + 1) * ((seg_end seg - seg_start seg) / of_nat (length (py_split (seg_text seg))))\<rparr>"
  using assms by (auto simp: synthesize_words_def enumerate_from0_def Let_def)

lemma no_words_key: "\<forall>seg \<in> set segs. seg_words seg = None \<Longrightarrow> timestamped_words segs = []"
  by (simp add: timestamped_words_def)

lemma assign_word_label:
  "assign_word ss w =
     \<lparr>tw_word = py_strip (wi_word w),
      tw_start = py_round2 (wi_start w),
      tw_end = py_round2 (wi_end w),
      tw_speaker =
        (case first_interval_owner ((wi_start w + wi_end w) / 2)
                (filter (\<lambda>(k, segs). k \<noteq> ''speaker_1'') ss) of
           None \<Rightarrow> ''speaker_1'' | Some sid \<Rightarrow> sid)\<rparr>"
  by (simp add: assign_word_def Let_def scan_speakers_eq)

lemma synth_ignores_words: "synthesize_words (seg\<lparr>seg_words := ws\<rparr>) = synthesize_words seg"
  by (simp add: synthesize_words_def)

text \<open>
  C9. When no segment of Whisper's output carries word-level timestamps (the list
  \<^verbatim>\<open>all_words\<close> collected from the \<^verbatim>\<open>"words"\<close> keys is empty), the words are made
  from the segments: a segment with \<open>n\<close> whitespace-delimited tokens and duration
  \<open>d = end - start\<close> yields \<open>n\<close> words, token \<open>i\<close> (from 0) running from
  \<open>start + i * (d / n)\<close> to \<open>start + (i + 1) * (d / n)\<close>. The assignment loop then
  runs over exactly these words, as it does over words with timestamps: each one is
  emitted with its token stripped, its two times rounded, and the label that the scan
  gives to its midpoint \<open>(start + end) / 2\<close>, which is the owner of the first interval
  holding the midpoint among the speakers other than \<^verbatim>\<open>speaker_1\<close>, and
  \<^verbatim>\<open>speaker_1\<close> when there is none. The result is the one the function gives when the
  same words come with the segments as their word-level timestamps.
\<close>

theorem words_synthesized_evenly:
  assumes "timestamped_words (whisper_segments wr) = []"
  shows "all_words wr = concat (map synthesize_words (whisper_segments wr))
    \<and> (\<forall>seg \<in> set (whisper_segments wr).
         length (synthesize_words seg) = length (py_split (seg_text seg))
         \<and> (\<forall>i < length (py_split (seg_text seg)).
              synthesize_words seg ! i =
                \<lparr>wi_word = py_split (seg_text seg) ! i,
                 wi_start = seg_start seg
                   + of_nat i * ((seg_end seg - seg_start seg) / of_nat (length (py_split (seg_text seg)))),
                 wi_end = seg_start seg
                   + (of_nat i + 1) * ((seg_end seg - seg_start seg) / of_nat (length (py_split (seg_text seg))))\<rparr>))
    \<and> assign_speakers_to_words wr ss
        = map (\<lambda>w. \<lparr>tw_word = py_strip (wi_word w),
                     tw_start = py_round2 (wi_start w),
                     tw_end = py_round2 (wi_end w),
                     tw_speaker =
                       (case first_interval_owner ((wi_start w + wi_end w) / 2)
                               (filter (\<lambda>(k, segs). k \<noteq> ''speaker_1'') ss) of
                          None \<Rightarrow> ''speaker_1'' | Some sid \<Rightarrow> sid)\<rparr>)
            (concat (map synthesize_words (whisper_segments wr)))
    \<and> assign_speakers_to_words wr ss
        = assign_speakers_to_words
            \<lparr>wr_language = wr_language wr,
             wr_segments = Some (map (\<lambda>seg. seg\<lparr>seg_words := Some (synthesize_words seg)\<rparr>)
                                   (whisper_segments wr))\<rparr> ss"
proof -
  let ?syn = "concat (map synthesize_words (whisper_segments wr))"
  let ?wr' = "\<lparr>wr_language = wr_language wr,
             wr_segments = Some (map (\<lambda>seg. seg\<lparr>seg_words := Some (synthesize_words seg)\<rparr>)
                                   (whisper_segments wr))\<rparr>"
  have a: "all_words wr = ?syn"
    using assms by (simp add: all_words_def)
  have b: "assign_speakers_to_words wr ss = map (assign_word ss) ?syn"
    by (simp only: assign_speakers_to_words_def a)
  have c: "map (assign_word ss) ?syn
        = map (\<lambda>w. \<lparr>tw_word = py_strip (wi_word w),
                     tw_start = py_round2 (wi_start w),
                     tw_end = py_round2 (wi_end w),
                     tw_speaker =
                       (case first_interval_owner ((wi_start w + wi_end w) / 2)
                               (filter (\<lambda>(k, segs). k \<noteq> ''speaker_1'') ss) of
                          None \<Rightarrow> ''speaker_1'' | Some sid \<Rightarrow> sid)\<rparr>) ?syn"
    by (rule map_cong [OF refl]) (rule assign_word_label)
  have t: "timestamped_words (whisper_segments ?wr') = ?syn"
    by (simp add: timestamped_words_def whisper_segments_def comp_def)
  have s: "concat (map synthesize_words (whisper_segments ?wr')) = ?syn"
    by (simp add: whisper_segments_def comp_def synth_ignores_words)
  have "all_words ?wr' = ?syn"
    unfolding all_words_def Let_def t s by simp
  then have d: "assign_speakers_to_words wr ss = assign_speakers_to_words ?wr' ss"
    by (simp only: assign_speakers_to_words_def a)
  show ?thesis
    using a b c d synth_length synth_nth by (simp only:) blast
qed

theorem words_synthesized_evenly_witness:
  "timestamped_words
     (whisper_segments
        \<lparr>wr_language = None,
         wr_segments = Some [\<lparr>seg_start = 10, seg_end = 13, seg_text = '' one two  three'',
                              seg_words = None, seg_avg_logprob = None\<rparr>]\<rparr>) = []
   \<and> all_words
        \<lparr>wr_language = None,
         wr_segments = Some [\<lparr>seg_start = 10, seg_end = 13, seg_text = '' one two  three'',
                              seg_words = None, seg_avg_logprob = None\<rparr>]\<rparr>
     = [\<lparr>wi_word = ''one'', wi_start = 10, wi_end = 11\<rparr>,
        \<lparr>wi_word = ''two'', wi_start = 11, wi_end = 12\<rparr>,
        \<lparr>wi_word = ''three'', wi_start = 12, wi_end = 13\<rparr>]
   \<and> assign_speakers_to_words
        \<lparr>wr_language = None,
         wr_segments = Some [\<lparr>seg_start = 10, seg_end = 13, seg_text = '' one two  three'',
                              seg_words = None, seg_avg_logprob = None\<rparr>]\<rparr>
        [(''speaker_1'', [(0, 11)]), (''speaker_2'', [(11, 12)]), (''speaker_3'', [(12, 20)])]
     = [\<lparr>tw_word = ''one'', tw_start = 10, tw_end = 11, tw_speaker = ''speaker_1''\<rparr>,
        \<lparr>tw_word = ''two'', tw_start = 11, tw_end = 12, tw_speaker = ''speaker_2''\<rparr>,
        \<lparr>tw_word = ''three'', tw_start = 12, tw_end = 13, tw_speaker = ''speaker_3''\<rparr>]"
proof -
  let ?seg = "\<lparr>seg_start = 10, seg_end = 13, seg_text = '' one two  three'',
               seg_words = None, seg_avg_logprob = None\<rparr>"
  let ?wr = "\<lparr>wr_language = None, wr_segments = Some [?seg]\<rparr>"
  let ?ss = "[(''speaker_1'', [(0 :: real, 11 :: real)]), (''speaker_2'', [(11, 12)]),
              (''speaker_3'', [(12, 20)])]"
  have none: "timestamped_words (whisper_segments ?wr) = []"
    by (simp add: timestamped_words_def whisper_segments_def)
  have toks: "py_split '' one two  three'' = [''one'', ''two'', ''three'']"
    by (simp add: py_split_def isspace_def)
  have syn: "concat (map synthesize_words (whisper_segments ?wr))
          = [\<lparr>wi_word = ''one'', wi_start = 10, wi_end = 11\<rparr>,
             \<lparr>wi_word = ''two'', wi_start = 11, wi_end = 12\<rparr>,
             \<lparr>wi_word = ''three'', wi_start = 12, wi_end = 13\<rparr>]"
    by (simp add: whisper_segments_def synthesize_words_def toks enumerate_from0_def Let_def
        upt_conv_Cons)
  have vals: "py_strip ''one'' = ''one''" "py_strip ''two'' = ''two''"
    "py_strip ''three'' = ''three''"
    "py_round2 10 = 10" "py_round2 11 = 11" "py_round2 12 = 12" "py_round2 13 = 13"
    by (simp_all add: py_strip_def isspace_def py_round2_def round_half_even_def)
  from words_synthesized_evenly [OF none, of ?ss]
  have "all_words ?wr = concat (map synthesize_words (whisper_segments ?wr))"
    and "assign_speakers_to_words ?wr ?ss
        = map (\<lambda>w. \<lparr>tw_word = py_strip (wi_word w),
                     tw_start = py_round2 (wi_start w),
                     tw_end = py_round2 (wi_end w),
                     tw_speaker =
                       (case first_interval_owner ((wi_start w + wi_end w) / 2)
                               (filter (\<lambda>(k, segs). k \<noteq> ''speaker_1'') ?ss) of
                          None \<Rightarrow> ''speaker_1'' | Some sid \<Rightarrow> sid)\<rparr>)
            (concat (map synthesize_words (whisper_segments ?wr)))"
    by blast+
  then show ?thesis
    using none by (simp add: syn vals)
qed

section \<open>The small recording, evaluated\<close>

lemma fallback_loop_2: "fallback_loop 2 0 1 = [(''speaker_1'', 0, 2)]"
  by (simp add: fallback_loop.simps [of 2 0] fallback_loop.simps [of 2 2] speaker_name_def)

lemma perform_diarization_fallback_2: "perform_diarization None 2 = [(''speaker_1'', [(0, 2)])]"
  by (simp only: perform_diarization_def option.case fallback_loop_2) simp

lemma example_transcript:
  "assign_speakers_to_words example_whisper [(''speaker_1'', [(0, 2)])] = res_transcript example_result"
  by (simp add: assign_speakers_to_words_def all_words_def whisper_segments_def timestamped_words_def
      example_whisper_def example_result_def assign_word_def py_round2_def round_half_even_def py_strip_def isspace_def)

lemma example_speakers:
  "calculate_speaker_stats (res_transcript example_result) = res_speakers example_result"
  by (simp add: calculate_speaker_stats_def example_result_def py_round2_def round_half_even_def)

lemma example_confidence: "calculate_confidence example_whisper = 1"
  by (simp add: calculate_confidence_def example_whisper_def py_round2_def round_half_even_def)

lemma process_audio_example: "process_audio example_audio = Inr example_result"
  by (simp add: process_audio_def example_audio_def perform_diarization_fallback_2
      example_transcript example_speakers example_confidence py_round2_def round_half_even_def)
     (simp add: example_result_def example_whisper_def)

section \<open>Properties of the speaker summary\<close>

lemma hundredths_iff: "hundredths x \<longleftrightarrow> (\<exists>k :: int. x * 100 = of_int k)"
  by (auto simp: hundredths_def)

lemma hundredths_0: "hundredths 0"
  by (simp add: hundredths_def)

lemma hundredths_add: "hundredths x \<Longrightarrow> hundredths y \<Longrightarrow> hundredths (x + y)"
proof -
  assume "hundredths x" "hundredths y"
  then obtain a b :: int where "x * 100 = of_int a" "y * 100 = of_int b"
    by (auto simp: hundredths_iff)
  then have "(x + y) * 100 = of_int (a + b)" by (simp add: algebra_simps)
  then show ?thesis unfolding hundredths_iff by blast
qed

lemma hundredths_diff: "hundredths x \<Longrightarrow> hundredths y \<Longrightarrow> hundredths (x - y)"
proof -
  assume "hundredths x" "hundredths y"
  then obtain a b :: int where "x * 100 = of_int a" "y * 100 = of_int b"
    by (auto simp: hundredths_iff)
  then have "(x - y) * 100 = of_int (a - b)" by (simp add: algebra_simps)
  then show ?thesis unfolding hundredths_iff by blast
qed

lemma keys_add_time: "fst ` set (add_time d k x) = insert k (fst ` set d)"
  by (induction d k x rule: add_time.induct) auto

lemma distinct_add_time: "distinct (map fst d) \<Longrightarrow> distinct (map fst (add_time d k x))"
proof (induction d k x rule: add_time.induct)
  case (1 speaker duration)
  then show ?case by simp
next
  case (2 k t d speaker duration)
  then show ?case
    using keys_add_time [of d speaker duration] by auto
qed

lemma sum_add_time: "sum_list (map snd (add_time d k x)) = sum_list (map snd d) + x"
  by (induction d k x rule: add_time.induct) auto

lemma map_of_add_time:
  "map_of (add_time d k x) = (map_of d)(k \<mapsto> (case map_of d k of None \<Rightarrow> 0 | Some t \<Rightarrow> t) + x)"
  by (induction d k x rule: add_time.induct) (auto simp: fun_eq_iff)

lemma hundredths_add_time:
  "\<forall>t \<in> set (map snd d). hundredths t \<Longrightarrow> hundredths x \<Longrightarrow> \<forall>t \<in> set (map snd (add_time d k x)). hundredths t"
  by (induction d k x rule: add_time.induct) (auto simp: hundredths_add)

lemma keys_speaker_times:
  "fst ` set (speaker_times d ws) = fst ` set d \<union> tw_speaker ` set ws"
  by (induction d ws rule: speaker_times.induct) (auto simp: keys_add_time)

lemma distinct_speaker_times:
  "distinct (map fst d) \<Longrightarrow> distinct (map fst (speaker_times d ws))"
  by (induction d ws rule: speaker_times.induct) (auto simp: distinct_add_time)

lemma sum_speaker_times:
  "sum_list (map snd (speaker_times d ws)) = sum_list (map snd d) + (\<Sum>w \<leftarrow> ws. tw_end w - tw_start w)"
  by (induction d ws rule: speaker_times.induct) (auto simp: sum_add_time)

lemma lookup_speaker_times:
  "(case map_of (speaker_times d ws) k of None \<Rightarrow> 0 | Some t \<Rightarrow> t)
     = (case map_of d k of None \<Rightarrow> 0 | Some t \<Rightarrow> t) + speaking_time k ws"
proof (induction d ws rule: speaker_times.induct)
  case (1 d)
  then show ?case by (simp add: speaking_time_def)
next
  case (2 d word rest)
  then show ?case
    by (simp add: map_of_add_time speaking_time_def)
qed

lemma hundredths_speaker_times:
  "\<forall>t \<in> set (map snd d). hundredths t \<Longrightarrow>
   \<forall>w \<in> set ws. hundredths (tw_start w) \<and> hundredths (tw_end w) \<Longrightarrow>
   \<forall>t \<in> set (map snd (speaker_times d ws)). hundredths t"
proof (induction d ws rule: speaker_times.induct)
  case (1 d)
  then show ?case by simp
next
  case (2 d word rest)
  have w: "hundredths (tw_end word - tw_start word)"
    using "2.prems"(2) by (simp add: hundredths_diff)
  have a: "\<forall>t \<in> set (map snd (add_time d (tw_speaker word) (tw_end word - tw_start word))).
             hundredths t"
    by (rule hundredths_add_time [OF "2.prems"(1) w])
  have r: "\<forall>w \<in> set rest. hundredths (tw_start w) \<and> hundredths (tw_end w)"
    using "2.prems"(2) by simp
  show ?case
    using "2.IH" [OF a r] by (simp only: speaker_times.simps)
qed

lemma entry_total:
  assumes "(k, t) \<in> set (speaker_times [] ws)"
  shows "t = speaking_time k ws"
proof -
  have "distinct (map fst (speaker_times [] ws))"
    by (rule distinct_speaker_times) simp
  then have "map_of (speaker_times [] ws) k = Some t"
    using assms by simp
  then show ?thesis
    using lookup_speaker_times [of "[]" ws k] by simp
qed

lemma stats_ids: "map sp_id (map (\<lambda>(speaker_id, total_time). \<lparr>sp_id = speaker_id, sp_total_sec = py_round2 total_time\<rparr>) d) = map fst d"
  by (induction d) auto

lemma stats_totals: "map sp_total_sec (map (\<lambda>(speaker_id, total_time). \<lparr>sp_id = speaker_id, sp_total_sec = py_round2 total_time\<rparr>) d) = map (\<lambda>p. py_round2 (snd p)) d"
  by (induction d) auto

lemma mset_stats:
  "mset (calculate_speaker_stats ws)
     = mset (map (\<lambda>(speaker_id, total_time). \<lparr>sp_id = speaker_id, sp_total_sec = py_round2 total_time\<rparr>)
               (speaker_times [] ws))"
  by (simp add: calculate_speaker_stats_def)

lemma stats_distinct: "distinct (map sp_id (calculate_speaker_stats ws))"
proof -
  have "mset (map sp_id (calculate_speaker_stats ws)) = mset (map fst (speaker_times [] ws))"
    using mset_stats [of ws] stats_ids [of "speaker_times [] ws"]
    by (metis mset_map)
  moreover have "distinct (map fst (speaker_times [] ws))"
    by (rule distinct_speaker_times) simp
  ultimately show ?thesis
    by (metis mset_eq_imp_distinct_iff)
qed

lemma stats_labels: "set (map sp_id (calculate_speaker_stats ws)) = set (map tw_speaker ws)"
proof -
  have "set (map sp_id (calculate_speaker_stats ws)) = set (map fst (speaker_times [] ws))"
    using mset_stats [of ws] stats_ids [of "speaker_times [] ws"]
    by (metis mset_map set_mset_mset)
  then show ?thesis
    using keys_speaker_times [of "[]" ws] by simp
qed

lemma stats_entry:
  assumes "e \<in> set (calculate_speaker_stats ws)"
  shows "sp_total_sec e = py_round2 (speaking_time (sp_id e) ws)"
proof -
  from assms obtain k t where kt: "(k, t) \<in> set (speaker_times [] ws)"
    and e: "e = \<lparr>sp_id = k, sp_total_sec = py_round2 t\<rparr>"
    by (auto simp: calculate_speaker_stats_def)
  from entry_total [OF kt] e show ?thesis by simp
qed

lemma stats_sorted: "sorted_wrt (\<lambda>a b. b \<le> a) (map sp_total_sec (calculate_speaker_stats ws))"
proof -
  have "sorted (map (\<lambda>s. - sp_total_sec s) (calculate_speaker_stats ws))"
    unfolding calculate_speaker_stats_def by (rule sorted_sort_key)
  then show ?thesis
    by (simp add: sorted_wrt_map)
qed

lemma stats_sum:
  "sum_list (map sp_total_sec (calculate_speaker_stats ws))
     = sum_list (map (\<lambda>p. py_round2 (snd p)) (speaker_times [] ws))"
proof -
  have "mset (map sp_total_sec (calculate_speaker_stats ws))
          = mset (map (\<lambda>p. py_round2 (snd p)) (speaker_times [] ws))"
    using mset_stats [of ws] stats_totals [of "speaker_times [] ws"]
    by (metis mset_map)
  then show ?thesis
    by (metis sum_mset_sum_list)
qed

lemma stats_exact:
  assumes "\<forall>w \<in> set ws. hundredths (tw_start w) \<and> hundredths (tw_end w)"
  shows "(\<forall>e \<in> set (calculate_speaker_stats ws). sp_total_sec e = speaking_time (sp_id e) ws)
       \<and> sum_list (map sp_total_sec (calculate_speaker_stats ws)) = (\<Sum>w \<leftarrow> ws. tw_end w - tw_start w)"
proof -
  have h: "\<forall>t \<in> set (map snd (speaker_times [] ws)). hundredths t"
    by (rule hundredths_speaker_times [OF _ assms]) simp
  have r: "map (\<lambda>p. py_round2 (snd p)) (speaker_times [] ws) = map snd (speaker_times [] ws)"
    using h by (simp add: py_round2_hundredths)
  have one: "\<forall>e \<in> set (calculate_speaker_stats ws). sp_total_sec e = speaking_time (sp_id e) ws"
  proof
    fix e assume e: "e \<in> set (calculate_speaker_stats ws)"
    then obtain k t where kt: "(k, t) \<in> set (speaker_times [] ws)"
      and ee: "e = \<lparr>sp_id = k, sp_total_sec = py_round2 t\<rparr>"
      by (auto simp: calculate_speaker_stats_def)
    have "hundredths t" using h kt by force
    then show "sp_total_sec e = speaking_time (sp_id e) ws"
      using entry_total [OF kt] ee by (simp add: py_round2_hundredths)
  qed
  have "sum_list (map sp_total_sec (calculate_speaker_stats ws)) = sum_list (map snd (speaker_times [] ws))"
    by (simp only: stats_sum r)
  then show ?thesis
    using one sum_speaker_times [of "[]" ws] by simp
qed

lemma assigned_hundredths:
  "\<forall>w \<in> set (assign_speakers_to_words wr ss). hundredths (tw_start w) \<and> hundredths (tw_end w)"
  by (simp add: assign_speakers_to_words_def assign_word_def Let_def hundredths_py_round2)

lemma round_half_even_near: "\<bar>of_int (round_half_even y) - y\<bar> \<le> 1 / 2"
proof -
  have f: "of_int \<lfloor>y\<rfloor> \<le> y" "y < of_int \<lfloor>y\<rfloor> + 1"
    using floor_correct [of y] by simp_all
  show ?thesis
    using f by (auto simp: round_half_even_def Let_def abs_le_iff)
qed

lemma py_round2_near: "\<bar>py_round2 x - x\<bar> \<le> 1 / 200"
proof -
  have "\<bar>of_int (round_half_even (x * 100)) - x * 100\<bar> \<le> 1 / 2"
    by (rule round_half_even_near)
  then have "\<bar>of_int (round_half_even (x * 100)) / 100 - x\<bar> * 100 \<le> 1 / 2"
    by (simp add: abs_if field_simps split: if_splits)
  then show ?thesis
    by (simp add: py_round2_def)
qed

text \<open>
  C6. For every list of annotated words \<^verbatim>\<open>calculate_speaker_stats\<close> returns one
  entry per speaker label that occurs, in descending order of the totals. The total of
  an entry is the sum of \<open>end - start\<close> over the words with its label, rounded to
  hundredths by \<^verbatim>\<open>round(total_time, 2)\<close>, so at most half a hundredth away from the
  sum. When the times of the words are hundredths, the rounding returns the sum itself:
  every total is the sum for its label, and the totals add up to the sum of
  \<open>end - start\<close> over all words. The times of the words the assignment emits are
  hundredths.
\<close>

theorem speaker_stats_totals:
  "distinct (map sp_id (calculate_speaker_stats ws))
   \<and> set (map sp_id (calculate_speaker_stats ws)) = set (map tw_speaker ws)
   \<and> sorted_wrt (\<lambda>a b. b \<le> a) (map sp_total_sec (calculate_speaker_stats ws))
   \<and> (\<forall>e \<in> set (calculate_speaker_stats ws).
         sp_total_sec e = py_round2 (speaking_time (sp_id e) ws)
         \<and> \<bar>sp_total_sec e - speaking_time (sp_id e) ws\<bar> \<le> 1 / 200)
   \<and> ((\<forall>w \<in> set ws. hundredths (tw_start w) \<and> hundredths (tw_end w)) \<longrightarrow>
        (\<forall>e \<in> set (calculate_speaker_stats ws). sp_total_sec e = speaking_time (sp_id e) ws)
        \<and> sum_list (map sp_total_sec (calculate_speaker_stats ws))
            = (\<Sum>w \<leftarrow> ws. tw_end w - tw_start w))
   \<and> (\<forall>w \<in> set (assign_speakers_to_words wr ss).
         hundredths (tw_start w) \<and> hundredths (tw_end w))"
proof -
  have near: "\<forall>e \<in> set (calculate_speaker_stats ws).
         sp_total_sec e = py_round2 (speaking_time (sp_id e) ws)
         \<and> \<bar>sp_total_sec e - speaking_time (sp_id e) ws\<bar> \<le> 1 / 200"
    using stats_entry [of _ ws] py_round2_near by simp
  show ?thesis
    using stats_distinct [of ws] stats_labels [of ws] stats_sorted [of ws] near
      stats_exact [of ws] assigned_hundredths [of wr ss]
    by blast
qed

theorem speaker_stats_totals_witness:
  "list_all (\<lambda>w. hundredths (tw_start w) \<and> hundredths (tw_end w))
     (assign_speakers_to_words example_whisper
        [(''speaker_1'', [(0, 2 / 5)]), (''speaker_2'', [(2 / 5, 2)])])
   \<and> calculate_speaker_stats
     (assign_speakers_to_words example_whisper
        [(''speaker_1'', [(0, 2 / 5)]), (''speaker_2'', [(2 / 5, 2)])])
     = [\<lparr>sp_id = ''speaker_2'', sp_total_sec = 3 / 2\<rparr>,
        \<lparr>sp_id = ''speaker_1'', sp_total_sec = 38 / 100\<rparr>]
   \<and> speaking_time ''speaker_2''
        (assign_speakers_to_words example_whisper
           [(''speaker_1'', [(0, 2 / 5)]), (''speaker_2'', [(2 / 5, 2)])]) = 3 / 2
   \<and> speaking_time ''speaker_1''
        (assign_speakers_to_words example_whisper
           [(''speaker_1'', [(0, 2 / 5)]), (''speaker_2'', [(2 / 5, 2)])]) = 38 / 100
   \<and> (\<Sum>w \<leftarrow> assign_speakers_to_words example_whisper
           [(''speaker_1'', [(0, 2 / 5)]), (''speaker_2'', [(2 / 5, 2)])]. tw_end w - tw_start w)
       = 188 / 100"
proof -
  let ?ss = "[(''speaker_1'', [(0, 2 / 5)]), (''speaker_2'', [(2 / 5, 2 :: real)])]"
  let ?ws = "assign_speakers_to_words example_whisper ?ss"
  have ws: "?ws = [\<lparr>tw_word = ''hi'', tw_start = 12 / 100, tw_end = 1 / 2, tw_speaker = ''speaker_1''\<rparr>,
                   \<lparr>tw_word = ''there'', tw_start = 1 / 2, tw_end = 2, tw_speaker = ''speaker_2''\<rparr>]"
    by (simp add: assign_speakers_to_words_def all_words_def whisper_segments_def
        timestamped_words_def example_whisper_def assign_word_def py_round2_def
        round_half_even_def py_strip_def isspace_def)
  have st: "calculate_speaker_stats ?ws
              = [\<lparr>sp_id = ''speaker_2'', sp_total_sec = 3 / 2\<rparr>,
                 \<lparr>sp_id = ''speaker_1'', sp_total_sec = 38 / 100\<rparr>]"
    by (simp only: ws) (simp add: calculate_speaker_stats_def py_round2_def round_half_even_def)
  have h: "\<forall>w \<in> set ?ws. hundredths (tw_start w) \<and> hundredths (tw_end w)"
    using speaker_stats_totals [of ?ws example_whisper ?ss] by blast
  have "(\<forall>e \<in> set (calculate_speaker_stats ?ws). sp_total_sec e = speaking_time (sp_id e) ?ws)
        \<and> sum_list (map sp_total_sec (calculate_speaker_stats ?ws))
            = (\<Sum>w \<leftarrow> ?ws. tw_end w - tw_start w)"
    using speaker_stats_totals [of ?ws example_whisper ?ss] h by blast
  then have "speaking_time ''speaker_2'' ?ws = 3 / 2"
    and "speaking_time ''speaker_1'' ?ws = 38 / 100"
    and "(\<Sum>w \<leftarrow> ?ws. tw_end w - tw_start w) = 188 / 100"
    by (simp_all add: st)
  with st h show ?thesis by (simp add: list_all_iff)
qed

section \<open>What is stored and returned\<close>

lemma clean_assign_word: "clean_entry (assign_word ss w)"
  by (simp add: clean_entry_def assign_word_def Let_def stripped_py_strip hundredths_py_round2)

lemma clean_assigned: "list_all clean_entry (assign_speakers_to_words wr ss)"
  by (simp add: assign_speakers_to_words_def list_all_iff clean_assign_word)

lemma process_audio_transcript:
  assumes "process_audio au = Inr res"
  shows "list_all clean_entry (res_transcript res)"
  using assms clean_assigned
  by (auto simp: process_audio_def Let_def split: sum.splits)

lemma entry_eta:
  "\<lparr>tw_word = tw_word x, tw_start = tw_start x, tw_end = tw_end x, tw_speaker = tw_speaker x\<rparr> = x"
  by (cases x) simp

lemma saved_rows:
  assumes "\<forall>w \<in> set (transcript_words db). word_session_id w \<noteq> task_id"
  shows "filter (\<lambda>w. word_session_id w = task_id)
           (transcript_words (save_transcription_results db task_id res))
         = map (\<lambda>e. \<lparr>word_session_id = task_id, word_text = tw_word e,
                       word_start_time = tw_start e, word_end_time = tw_end e,
                       word_speaker_label = tw_speaker e\<rparr>) (res_transcript res)"
proof -
  have "filter (\<lambda>w. word_session_id w = task_id) (transcript_words db) = []"
    using assms by (simp add: filter_empty_conv)
  then show ?thesis
    by (simp add: save_transcription_results_def filter_map comp_def)
qed

lemma stored_transcript:
  assumes "get_transcription_result task_id db = Inr stored"
  shows "mset (res_transcript stored)
         = mset (map (\<lambda>word. \<lparr>tw_word = word_text word, tw_start = word_start_time word,
                                 tw_end = word_end_time word,
                                 tw_speaker = word_speaker_label word\<rparr>)
                    (filter (\<lambda>w. word_session_id w = task_id) (transcript_words db)))"
  using assms
  by (auto simp: get_transcription_result_def Let_def split: option.splits)

text \<open>
  C10. Every entry of the transcript carries the word with the whitespace at both ends
  removed, and the start and the end of the word rounded to hundredths of a second. This
  holds for the output of the assignment and so for the transcript of every result of
  \<^verbatim>\<open>process_audio\<close>; the rows \<^verbatim>\<open>save_transcription_results\<close> writes for a job
  hold these words and times, and the transcript \<^verbatim>\<open>get_transcription_result\<close> builds
  from the rows consists of the same entries.
\<close>

theorem annotated_words_stripped_and_rounded:
  assumes "process_audio au = Inr res"
    and "\<forall>w \<in> set (transcript_words db). word_session_id w \<noteq> task_id"
    and "get_transcription_result task_id (save_transcription_results db task_id res) = Inr stored"
  shows "map tw_word (assign_speakers_to_words wr ss) = map (\<lambda>w. py_strip (wi_word w)) (all_words wr)
   \<and> map tw_start (assign_speakers_to_words wr ss) = map (\<lambda>w. py_round2 (wi_start w)) (all_words wr)
   \<and> map tw_end (assign_speakers_to_words wr ss) = map (\<lambda>w. py_round2 (wi_end w)) (all_words wr)
   \<and> list_all clean_entry (assign_speakers_to_words wr ss)
   \<and> list_all clean_entry (res_transcript res)
   \<and> map (\<lambda>w. (word_text w, word_start_time w, word_end_time w))
        (filter (\<lambda>w. word_session_id w = task_id)
           (transcript_words (save_transcription_results db task_id res)))
       = map (\<lambda>e. (tw_word e, tw_start e, tw_end e)) (res_transcript res)
   \<and> mset (res_transcript stored) = mset (res_transcript res)
   \<and> list_all clean_entry (res_transcript stored)"
proof -
  have maps: "map tw_word (assign_speakers_to_words wr ss) = map (\<lambda>w. py_strip (wi_word w)) (all_words wr)
   \<and> map tw_start (assign_speakers_to_words wr ss) = map (\<lambda>w. py_round2 (wi_start w)) (all_words wr)
   \<and> map tw_end (assign_speakers_to_words wr ss) = map (\<lambda>w. py_round2 (wi_end w)) (all_words wr)"
    by (simp add: assign_speakers_to_words_def assign_word_def Let_def comp_def)
  have res: "list_all clean_entry (res_transcript res)"
    by (rule process_audio_transcript [OF assms(1)])
  have rows: "map (\<lambda>w. (word_text w, word_start_time w, word_end_time w))
        (filter (\<lambda>w. word_session_id w = task_id)
           (transcript_words (save_transcription_results db task_id res)))
       = map (\<lambda>e. (tw_word e, tw_start e, tw_end e)) (res_transcript res)"
    by (simp add: saved_rows [OF assms(2)] comp_def)
  have same: "mset (res_transcript stored) = mset (res_transcript res)"
    using stored_transcript [OF assms(3)]
    by (simp add: saved_rows [OF assms(2)] comp_def entry_eta)
  then have "set (res_transcript stored) = set (res_transcript res)"
    by (metis set_mset_mset)
  then have st: "list_all clean_entry (res_transcript stored)"
    using res by (simp add: list_all_iff)
  show ?thesis
    using maps clean_assigned res rows same st by blast
qed

theorem annotated_words_stripped_and_rounded_witness:
  "process_audio example_audio = Inr example_result
   \<and> get_transcription_result ''job''
        (save_transcription_results
           (create_transcription_task ''job'' ''user'' ''a.wav'' ''upload'' 1000 empty_database)
           ''job'' example_result)
       = Inr (example_result\<lparr>res_duration_sec := 0, res_confidence := 85 / 100\<rparr>)
   \<and> map tw_word (assign_speakers_to_words example_whisper []) = [''hi'', ''there'']
   \<and> map tw_start (assign_speakers_to_words example_whisper []) = [12 / 100, 1 / 2]
   \<and> map tw_end (assign_speakers_to_words example_whisper []) = [1 / 2, 2]
   \<and> list_all clean_entry (res_transcript example_result)"
proof -
  let ?db = "create_transcription_task ''job'' ''user'' ''a.wav'' ''upload'' 1000 empty_database"
  have fresh: "\<forall>w \<in> set (transcript_words ?db). word_session_id w \<noteq> ''job''"
    by (simp add: create_transcription_task_def empty_database_def)
  have got: "get_transcription_result ''job'' (save_transcription_results ?db ''job'' example_result)
       = Inr (example_result\<lparr>res_duration_sec := 0, res_confidence := 85 / 100\<rparr>)"
    by (simp add: get_transcription_result_def save_transcription_results_def
        create_transcription_task_def empty_database_def new_session_def example_result_def
        py_or_def)
  have words: "all_words example_whisper
      = [\<lparr>wi_word = '' hi'', wi_start = 123 / 1000, wi_end = 1 / 2\<rparr>,
         \<lparr>wi_word = '' there'', wi_start = 1 / 2, wi_end = 1996 / 1000\<rparr>]"
    by (simp add: all_words_def whisper_segments_def timestamped_words_def example_whisper_def)
  have vals: "map (\<lambda>w. py_strip (wi_word w)) (all_words example_whisper) = [''hi'', ''there'']"
    "map (\<lambda>w. py_round2 (wi_start w)) (all_words example_whisper) = [12 / 100, 1 / 2]"
    "map (\<lambda>w. py_round2 (wi_end w)) (all_words example_whisper) = [1 / 2, 2]"
    by (simp_all only: words) (simp_all add: py_strip_def isspace_def py_round2_def round_half_even_def)
  from annotated_words_stripped_and_rounded [OF process_audio_example fresh got, of example_whisper "[]"]
  show ?thesis
    using process_audio_example got vals by simp
qed

section \<open>Properties of the fallback diarization\<close>

lemma speaker_name_window: "speaker_name (if even k then 1 else 2) = window_speaker k"
  by (simp add: speaker_name_def window_speaker_def)

lemma window_count_le: "window_count d \<le> k \<longleftrightarrow> d \<le> 30 * real k"
proof -
  have "window_count d \<le> k \<longleftrightarrow> \<lceil>d / 30\<rceil> \<le> int k"
    by (simp add: window_count_def nat_le_iff)
  also have "\<dots> \<longleftrightarrow> d / 30 \<le> real k"
    by (simp add: ceiling_le_iff)
  also have "\<dots> \<longleftrightarrow> d \<le> 30 * real k"
    by (simp add: field_simps)
  finally show ?thesis .
qed

lemma fallback_loop_done: "d \<le> c \<Longrightarrow> fallback_loop d c sid = []"
  by (simp add: fallback_loop.simps [of d c sid])

lemma fallback_loop_windows:
  "fallback_loop d (30 * real k) (if even k then 1 else 2)
     = map (\<lambda>j. (window_speaker j, window_interval d j)) [k..<window_count d]"
proof (induction "window_count d - k" arbitrary: k)
  case 0
  then have "window_count d \<le> k" by simp
  then have "d \<le> 30 * real k" by (simp add: window_count_le)
  then show ?case
    using \<open>window_count d \<le> k\<close> by (simp add: fallback_loop_done)
next
  case (Suc m)
  then have lt: "k < window_count d" by simp
  then have run: "30 * real k < d"
    using window_count_le [of d k] by simp
  have upt: "[k..<window_count d] = k # [Suc k..<window_count d]"
    using lt by (simp add: upt_conv_Cons)
  have step: "fallback_loop d (30 * real k) (if even k then 1 else 2)
      = (window_speaker k, window_interval d k)
        # fallback_loop d (min (30 * real k + 30) d) (if even (Suc k) then 1 else 2)"
    using run
    by (simp add: fallback_loop.simps [of d "30 * real k"] speaker_name_def window_speaker_def
        window_interval_def Let_def)
  have rest: "fallback_loop d (min (30 * real k + 30) d) (if even (Suc k) then 1 else 2)
      = map (\<lambda>j. (window_speaker j, window_interval d j)) [Suc k..<window_count d]"
  proof (cases "30 * real k + 30 \<le> d")
    case True
    then have m: "min (30 * real k + 30) d = 30 * real (Suc k)" by simp
    have "m = window_count d - Suc k" using Suc(2) by simp
    from Suc(1) [OF this] show ?thesis by (simp only: m)
  next
    case False
    then have m: "min (30 * real k + 30) d = d" by simp
    have "d \<le> 30 * real (Suc k)" using False by simp
    then have "window_count d \<le> Suc k" by (simp only: window_count_le)
    then show ?thesis by (simp add: m fallback_loop_done)
  qed
  show ?case by (simp only: step rest upt list.map)
qed

lemma fallback_loop_all:
  "fallback_loop d 0 1 = map (\<lambda>j. (window_speaker j, window_interval d j)) [0..<window_count d]"
  using fallback_loop_windows [of d 0] by simp

lemma map_of_dict_append:
  "map_of (dict_append d k v) = (map_of d)(k \<mapsto> dict_lookup d k @ [v])"
  by (induction d k v rule: dict_append.induct) (auto simp: dict_lookup_def fun_eq_iff)

lemma lookup_dict_append:
  "dict_lookup (dict_append d k v) k' = dict_lookup d k' @ (if k' = k then [v] else [])"
  by (simp add: dict_lookup_def map_of_dict_append)

lemma keys_dict_append: "fst ` set (dict_append d k v) = insert k (fst ` set d)"
  by (induction d k v rule: dict_append.induct) auto

lemma dict_lookup_empty: "dict_lookup [] k = []"
  by (simp add: dict_lookup_def)

lemma lookup_group_segments:
  "dict_lookup (group_segments d xs) k = dict_lookup d k @ map snd (filter (\<lambda>x. fst x = k) xs)"
  by (induction d xs rule: group_segments.induct) (auto simp: lookup_dict_append)

lemma keys_group_segments: "fst ` set (group_segments d xs) = fst ` set d \<union> fst ` set xs"
  by (induction d xs rule: group_segments.induct) (auto simp: keys_dict_append)

lemma window_speaker_1: "window_speaker j = ''speaker_1'' \<longleftrightarrow> even j"
  by (simp add: window_speaker_def)

lemma window_speaker_2: "window_speaker j = ''speaker_2'' \<longleftrightarrow> odd j"
  by (simp add: window_speaker_def)

lemma fallback_dict:
  "perform_diarization None d
     = group_segments [] (map (\<lambda>j. (window_speaker j, window_interval d j)) [0..<window_count d])"
  by (simp only: perform_diarization_def option.case fallback_loop_all)

lemma fallback_lookup_1:
  "dict_lookup (perform_diarization None d) ''speaker_1''
     = map (window_interval d) (filter even [0..<window_count d])"
  by (simp add: fallback_dict lookup_group_segments dict_lookup_empty filter_map comp_def
      window_speaker_1)

lemma fallback_lookup_2:
  "dict_lookup (perform_diarization None d) ''speaker_2''
     = map (window_interval d) (filter odd [0..<window_count d])"
  by (simp add: fallback_dict lookup_group_segments dict_lookup_empty filter_map comp_def
      window_speaker_2)

lemma fallback_keys: "fst ` set (perform_diarization None d) \<subseteq> {''speaker_1'', ''speaker_2''}"
  by (auto simp: fallback_dict keys_group_segments window_speaker_def)

lemma window_covers:
  assumes "0 < d" "0 \<le> t" "t \<le> d"
  shows "\<exists>k < window_count d. fst (window_interval d k) \<le> t \<and> t \<le> snd (window_interval d k)"
proof (cases "t < d")
  case True
  let ?k = "nat \<lfloor>t / 30\<rfloor>"
  have f0: "0 \<le> \<lfloor>t / 30\<rfloor>" using assms(2) by simp
  have rk: "real ?k = of_int \<lfloor>t / 30\<rfloor>" using f0 by simp
  have lo: "30 * real ?k \<le> t"
    using of_int_floor_le [of "t / 30"] by (simp add: rk field_simps)
  have hi: "t < 30 * real ?k + 30"
    using floor_correct [of "t / 30"] by (simp add: rk field_simps)
  have "\<not> d \<le> 30 * real ?k" using lo True by simp
  then have "?k < window_count d" using window_count_le [of d ?k] by simp
  then show ?thesis
    using lo hi True by (auto simp: window_interval_def intro!: exI [of _ ?k])
next
  case False
  then have td: "t = d" using assms(3) by simp
  let ?n = "window_count d"
  have pos: "0 < ?n"
    using assms(1) window_count_le [of d 0] by simp
  let ?k = "?n - 1"
  have "\<not> ?n \<le> ?k" using pos by simp
  then have lo: "30 * real ?k < d" using window_count_le [of d ?k] by simp
  have "?n \<le> Suc ?k" using pos by simp
  then have hi: "d \<le> 30 * real (Suc ?k)" by (simp only: window_count_le)
  have "?k < ?n" using pos by simp
  then show ?thesis
    using lo hi td by (auto simp: window_interval_def intro!: exI [of _ ?k])
qed

lemma fallback_window_in_dict:
  assumes "k < window_count d"
  shows "window_interval d k \<in> set (dict_lookup (perform_diarization None d) (window_speaker k))"
proof -
  have "(window_speaker k, window_interval d k)
          \<in> set (map (\<lambda>j. (window_speaker j, window_interval d j)) [0..<window_count d])"
    using assms by auto
  then show ?thesis
    by (force simp: fallback_dict lookup_group_segments dict_lookup_empty)
qed

section \<open>Properties of the job life cycle\<close>

lemmas run_parts = run_outcome_def run_database_def run_commits_def

lemma lifecycle_of_pending:
  assumes "sessions db task_id = Some s" "ts_id s = task_id"
    and "ts_status s = ''pending''" "ts_progress s = 0"
    and "env_report env 3 = None"
  shows "lifecycle (s # run_commits (process_transcription env task_id db))"
  using assms
  by (simp add: process_transcription_def handle_failure_def commit_session_def Let_def
      run_parts allowed_step_def progress_matches_status_def
      split: option.splits sum.splits)

lemma first_commit:
  assumes "sessions db task_id = Some s"
  shows "run_commits (process_transcription env task_id db) \<noteq> []
       \<and> hd (run_commits (process_transcription env task_id db))
           = s\<lparr>ts_status := ''processing'', ts_started_at := Some (env_utcnow env 0),
                ts_progress := 10\<rparr>"
  using assms
  by (simp add: process_transcription_def handle_failure_def commit_session_def Let_def
      run_parts split: option.splits sum.splits)

lemma last_commit_stored:
  assumes "sessions db task_id = Some s" "ts_id s = task_id"
  shows "sessions (run_database (process_transcription env task_id db)) task_id
           = Some (last (run_commits (process_transcription env task_id db)))"
  using assms
  by (simp add: process_transcription_def handle_failure_def commit_session_def Let_def
      run_parts save_transcription_results_def split: option.splits sum.splits)

lemma checkpoints:
  assumes "sessions db task_id = Some s" "ts_id s = task_id"
  shows "list_all (\<lambda>c. ts_progress c \<in> {10, 20, 80, 100})
           (run_commits (process_transcription env task_id db))"
  using assms
  by (simp add: process_transcription_def handle_failure_def commit_session_def Let_def
      run_parts split: option.splits sum.splits)

lemma created_pending:
  "sessions (create_transcription_task task_id user_id audio_source source_type now db0) task_id
     = Some (new_session task_id user_id audio_source source_type now)
   \<and> ts_id (new_session task_id user_id audio_source source_type now) = task_id
   \<and> ts_status (new_session task_id user_id audio_source source_type now) = ''pending''
   \<and> ts_progress (new_session task_id user_id audio_source source_type now) = 0"
  by (simp add: create_transcription_task_def new_session_def)

text \<open>
  C2, amended. A job is created with status \<^verbatim>\<open>pending\<close> and progress 0. For a job
  that is pending with progress 0 when \<^verbatim>\<open>process_transcription\<close> runs on it, in a run
  whose report of success (the last \<^verbatim>\<open>update_state\<close>) does not raise: the first
  commit sets the status to \<^verbatim>\<open>processing\<close> with progress 10, and
  \<^verbatim>\<open>started_at\<close> to the time of the run's first look at the clock; the states committed
  one after the other, starting from the pending one, only take the steps pending to
  processing, processing to processing, processing to completed and processing to failed,
  with a progress that never decreases; every committed progress is one of 10, 20, 80 and
  100; in every state the progress is 100 if and only if the status is
  \<^verbatim>\<open>completed\<close>; and the database ends with the last committed state.
\<close>

theorem job_lifecycle:
  assumes "sessions db task_id = Some s" and "ts_id s = task_id"
    and "ts_status s = ''pending''" and "ts_progress s = 0"
    and "env_report env 3 = None"
  shows "sessions (create_transcription_task task_id user_id audio_source source_type now db0) task_id
           = Some (new_session task_id user_id audio_source source_type now)
       \<and> ts_status (new_session task_id user_id audio_source source_type now) = ''pending''
       \<and> ts_progress (new_session task_id user_id audio_source source_type now) = 0
       \<and> run_commits (process_transcription env task_id db) \<noteq> []
       \<and> hd (run_commits (process_transcription env task_id db))
           = s\<lparr>ts_status := ''processing'', ts_started_at := Some (env_utcnow env 0),
                ts_progress := 10\<rparr>
       \<and> lifecycle (s # run_commits (process_transcription env task_id db))
       \<and> list_all (\<lambda>c. ts_progress c \<in> {10, 20, 80, 100})
             (run_commits (process_transcription env task_id db))
       \<and> sessions (run_database (process_transcription env task_id db)) task_id
           = Some (last (run_commits (process_transcription env task_id db)))"
  using created_pending [of task_id user_id audio_source source_type now db0]
    checkpoints [OF assms(1) assms(2), of env]
    first_commit [OF assms(1), of env]
    lifecycle_of_pending [OF assms]
    last_commit_stored [OF assms(1) assms(2), of env]
  by simp

lemma example_db_job:
  "sessions example_db ''job'' = Some (new_session ''job'' ''user'' ''a.wav'' ''upload'' 1000)"
  by (simp add: example_db_def create_transcription_task_def)

lemma example_run_commits:
  "map (\<lambda>c. (ts_status c, ts_progress c))
     (run_commits (process_transcription example_env ''job'' example_db))
   = [(''processing'', 10), (''processing'', 20), (''processing'', 80), (''completed'', 100)]"
  by (simp add: process_transcription_def example_db_job example_env_def process_audio_example
      Let_def run_parts)

theorem job_lifecycle_witness:
  "sessions example_db ''job'' = Some (new_session ''job'' ''user'' ''a.wav'' ''upload'' 1000)
   \<and> env_report example_env 3 = None
   \<and> map (\<lambda>c. (ts_status c, ts_progress c))
        (run_commits (process_transcription example_env ''job'' example_db))
      = [(''processing'', 10), (''processing'', 20), (''processing'', 80), (''completed'', 100)]
   \<and> lifecycle (new_session ''job'' ''user'' ''a.wav'' ''upload'' 1000
                 # run_commits (process_transcription example_env ''job'' example_db))"
proof -
  have r: "env_report example_env 3 = None"
    by (simp add: example_env_def)
  have n: "ts_id (new_session ''job'' ''user'' ''a.wav'' ''upload'' 1000) = ''job''"
    "ts_status (new_session ''job'' ''user'' ''a.wav'' ''upload'' 1000) = ''pending''"
    "ts_progress (new_session ''job'' ''user'' ''a.wav'' ''upload'' 1000) = 0"
    by (simp_all add: new_session_def)
  from job_lifecycle [OF example_db_job n r] example_db_job r example_run_commits
  show ?thesis by blast
qed

lemma example_done_job:
  "sessions example_done_db ''job''
     = Some ((new_session ''job'' ''user'' ''a.wav'' ''upload'' 1000)
               \<lparr>ts_status := ''completed'', ts_progress := 100,
                ts_started_at := Some 2000, ts_completed_at := Some 2001,
                ts_language := Some ''en'',
                ts_duration_seconds := Some 2, ts_confidence_score := Some 1\<rparr>)"
  by (simp add: example_done_db_def process_transcription_def example_db_job example_env_def
      process_audio_example Let_def run_parts commit_session_def save_transcription_results_def
      new_session_def example_result_def)

text \<open>
  C2, as stated, at a concrete input. \<^verbatim>\<open>process_transcription\<close> does not look at the
  status it finds: run on the job that an earlier run has completed (a task delivered a
  second time), it commits \<^verbatim>\<open>processing\<close> with progress 10 over \<^verbatim>\<open>completed\<close>
  with progress 100.
\<close>

theorem rerun_of_completed_job_counterexample:
  "map_option ts_status (sessions example_done_db ''job'') = Some ''completed''
   \<and> map (\<lambda>c. (ts_status c, ts_progress c))
        (run_commits (process_transcription example_env ''job'' example_done_db))
      = [(''processing'', 10), (''processing'', 20), (''processing'', 80), (''completed'', 100)]
   \<and> \<not> lifecycle (the (sessions example_done_db ''job'')
                   # run_commits (process_transcription example_env ''job'' example_done_db))"
  by (simp add: example_done_job process_transcription_def example_env_def process_audio_example
      Let_def run_parts allowed_step_def progress_matches_status_def new_session_def)

text \<open>
  The report of success is inside the \<^verbatim>\<open>try\<close> block: when it raises, the handler
  marks the job, already committed as completed, as failed, with progress 100.
\<close>

lemma report_after_completion:
  assumes "sessions db task_id = Some s" "ts_id s = task_id"
    and "env_report env 0 = None" "env_transcriber env = None" "env_report env 1 = None"
    and "process_audio (env_audio env) = Inr result" "env_report env 2 = None"
    and "env_save env = None" "env_report env 3 = Some e" "env_failure_write env"
  shows "map (\<lambda>c. (ts_status c, ts_progress c))
           (run_commits (process_transcription env task_id db))
         = [(''processing'', 10), (''processing'', 20), (''processing'', 80),
            (''completed'', 100), (''failed'', 100)]"
  using assms
  by (simp add: process_transcription_def handle_failure_def commit_session_def Let_def
      run_parts save_transcription_results_def)


lemma persistence_failure_cases:
  assumes "persistence_failure env = Some e"
  shows "\<exists>result. env_report env 0 = None \<and> env_transcriber env = None
           \<and> env_report env 1 = None \<and> process_audio (env_audio env) = Inr result
           \<and> env_report env 2 = None \<and> env_save env = Some e"
  using assms
  by (auto simp: persistence_failure_def split: option.splits sum.splits)




text \<open>
  The persistence step. \<^verbatim>\<open>save_transcription_results\<close> raises out of its commit,
  and the handler goes on with the same session without a rollback: its read and commit
  raise in turn and are swallowed. So the exception is raised again, but the job is not
  marked: it stays \<^verbatim>\<open>processing\<close> with progress 80, the error message and
  \<^verbatim>\<open>completed_at\<close> are not written, and no row of the result is stored, whether
  or not the database would take the handler's write.
\<close>

lemma persistence_failure_not_recorded:
  assumes "sessions db task_id = Some s" and "ts_id s = task_id"
    and "persistence_failure env = Some e"
  shows "run_outcome (process_transcription env task_id db) = Inl e
     \<and> sessions (run_database (process_transcription env task_id db)) task_id
         = Some (s\<lparr>ts_status := ''processing'', ts_progress := 80,
                   ts_started_at := Some (env_utcnow env 0)\<rparr>)
     \<and> sessions (run_database (process_transcription env task_id db)) task_id
         = Some (last (run_commits (process_transcription env task_id db)))
     \<and> transcript_words (run_database (process_transcription env task_id db))
         = transcript_words db
     \<and> speakers (run_database (process_transcription env task_id db)) = speakers db"
proof -
  from persistence_failure_cases [OF assms(3)] obtain result where
    "env_report env 0 = None" "env_transcriber env = None" "env_report env 1 = None"
    "process_audio (env_audio env) = Inr result" "env_report env 2 = None"
    "env_save env = Some e"
    by blast
  then show ?thesis
    using assms(1,2)
    by (simp add: process_transcription_def handle_failure_def commit_session_def Let_def
        run_parts)
qed

lemma persistence_failure_example:
  "persistence_failure (example_env\<lparr>env_save := Some ''disk full''\<rparr>) = Some ''disk full''
   \<and> env_failure_write (example_env\<lparr>env_save := Some ''disk full''\<rparr>)
   \<and> run_outcome (process_transcription (example_env\<lparr>env_save := Some ''disk full''\<rparr>)
        ''job'' example_db) = Inl ''disk full''
   \<and> sessions (run_database (process_transcription (example_env\<lparr>env_save := Some ''disk full''\<rparr>)
        ''job'' example_db)) ''job''
       = Some \<lparr>ts_id = ''job'', ts_user_id = ''user'', ts_audio_source = ''a.wav'',
               ts_source_type = ''upload'', ts_status = ''processing'', ts_progress = 80,
               ts_created_at = 1000, ts_started_at = Some 2000, ts_completed_at = None,
               ts_language = None, ts_duration_seconds = None, ts_confidence_score = None,
               ts_error_message = None\<rparr>"
proof -
  let ?env = "example_env\<lparr>env_save := Some ''disk full''\<rparr>"
  have f: "persistence_failure ?env = Some ''disk full''"
    by (simp add: persistence_failure_def example_env_def process_audio_example)
  have n: "ts_id (new_session ''job'' ''user'' ''a.wav'' ''upload'' 1000) = ''job''"
    by (simp add: new_session_def)
  have c: "env_utcnow example_env 0 = 2000" "env_failure_write example_env"
    by (simp_all add: example_env_def)
  from persistence_failure_not_recorded [OF example_db_job n f] f
  show ?thesis
    by (simp add: new_session_def c)
qed

lemma process_audio_total:
  assumes "au_duration au = Inr duration" "au_whisper au = Inr wr"
  shows "\<exists>result. process_audio au = Inr result"
  using assms by (simp add: process_audio_def Let_def)

lemma run_completes:
  assumes "sessions db task_id = Some s" "ts_id s = task_id"
    and "env_transcriber env = None" "env_save env = None" "\<forall>n. env_report env n = None"
    and "process_audio (env_audio env) = Inr result"
  shows "run_outcome (process_transcription env task_id db) = Inr result
       \<and> sessions (run_database (process_transcription env task_id db)) task_id
           = Some (s\<lparr>ts_status := ''completed'', ts_progress := 100,
                     ts_started_at := Some (env_utcnow env 0),
                     ts_completed_at := Some (env_utcnow env 1),
                     ts_language := Some (res_language result),
                     ts_duration_seconds := Some (res_duration_sec result),
                     ts_confidence_score := Some (res_confidence result)\<rparr>)"
  using assms
  by (simp add: process_transcription_def commit_session_def Let_def run_parts
      save_transcription_results_def)

section \<open>The job when diarization is not available\<close>

text \<open>
  C4, as stated, at a concrete input. For a recording of 60 seconds, a pipeline that
  raises gives one speaker with the single interval from 0 to 999999, not the two
  windows of 30 seconds that a missing pipeline gives; \<^verbatim>\<open>speaker_2\<close> has no interval.
\<close>

theorem raising_pipeline_single_speaker_counterexample:
  "perform_diarization (Some (Raises ''pipeline error'')) 60 = [(''speaker_1'', [(0, 999999)])]
   \<and> perform_diarization None 60 = [(''speaker_1'', [(0, 30)]), (''speaker_2'', [(30, 60)])]
   \<and> dict_lookup (perform_diarization (Some (Raises ''pipeline error'')) 60) ''speaker_2'' = []"
  by (simp add: perform_diarization_fallback_60) (simp add: perform_diarization_def dict_lookup_def)

text \<open>
  C4, amended. When the pipeline raises, \<^verbatim>\<open>perform_diarization\<close> returns the mapping
  of \<^verbatim>\<open>speaker_1\<close> to the single interval from 0 to 999999. When the pipeline is
  missing, it returns the alternation of two speakers over windows of 30 seconds: window
  \<open>k\<close> runs from \<open>30 k\<close> to \<open>30 k + 30\<close>, cut at the duration, the windows with even
  \<open>k\<close> are the intervals of \<^verbatim>\<open>speaker_1\<close>, those with odd \<open>k\<close> the intervals of
  \<^verbatim>\<open>speaker_2\<close>, there is no other speaker, and every time from 0 to the duration of
  a recording of positive length lies in one of the windows. In either case
  \<^verbatim>\<open>process_audio\<close> returns a result whenever \<^verbatim>\<open>load_audio\<close> and Whisper do, and
  a job whose other steps go through ends \<^verbatim>\<open>completed\<close>, whatever the pipeline does.
\<close>

theorem diarization_fallbacks:
  "perform_diarization (Some (Raises e)) duration = [(''speaker_1'', [(0, 999999)])]
   \<and> perform_diarization None duration
       = group_segments []
           (map (\<lambda>k. (window_speaker k, window_interval duration k)) [0..<window_count duration])
   \<and> dict_lookup (perform_diarization None duration) ''speaker_1''
       = map (window_interval duration) (filter even [0..<window_count duration])
   \<and> dict_lookup (perform_diarization None duration) ''speaker_2''
       = map (window_interval duration) (filter odd [0..<window_count duration])
   \<and> fst ` set (perform_diarization None duration) \<subseteq> {''speaker_1'', ''speaker_2''}
   \<and> (0 < duration \<and> 0 \<le> t \<and> t \<le> duration \<longrightarrow>
        (\<exists>k < window_count duration.
            window_interval duration k
              \<in> set (dict_lookup (perform_diarization None duration) (window_speaker k))
            \<and> fst (window_interval duration k) \<le> t \<and> t \<le> snd (window_interval duration k)))
   \<and> (au_duration au = Inr duration \<and> au_whisper au = Inr wr \<longrightarrow>
        (\<exists>result. process_audio au = Inr result))
   \<and> (sessions db task_id = Some s \<and> ts_id s = task_id \<and> env_transcriber env = None
        \<and> env_save env = None \<and> (\<forall>n. env_report env n = None)
        \<and> au_duration (env_audio env) = Inr duration \<and> au_whisper (env_audio env) = Inr wr \<longrightarrow>
        map_option ts_status
          (sessions (run_database (process_transcription env task_id db)) task_id)
        = Some ''completed'')"
proof -
  have raises: "perform_diarization (Some (Raises e)) duration = [(''speaker_1'', [(0, 999999)])]"
    by (simp add: perform_diarization_def)
  have cover: "0 < duration \<and> 0 \<le> t \<and> t \<le> duration \<longrightarrow>
        (\<exists>k < window_count duration.
            window_interval duration k
              \<in> set (dict_lookup (perform_diarization None duration) (window_speaker k))
            \<and> fst (window_interval duration k) \<le> t \<and> t \<le> snd (window_interval duration k))"
    using window_covers [of duration t] fallback_window_in_dict [of _ duration] by blast
  have total: "au_duration au = Inr duration \<and> au_whisper au = Inr wr \<longrightarrow>
        (\<exists>result. process_audio au = Inr result)"
    using process_audio_total by blast
  have job: "sessions db task_id = Some s \<and> ts_id s = task_id \<and> env_transcriber env = None
        \<and> env_save env = None \<and> (\<forall>n. env_report env n = None)
        \<and> au_duration (env_audio env) = Inr duration \<and> au_whisper (env_audio env) = Inr wr \<longrightarrow>
        map_option ts_status
          (sessions (run_database (process_transcription env task_id db)) task_id)
        = Some ''completed''"
  proof
    assume a: "sessions db task_id = Some s \<and> ts_id s = task_id \<and> env_transcriber env = None
        \<and> env_save env = None \<and> (\<forall>n. env_report env n = None)
        \<and> au_duration (env_audio env) = Inr duration \<and> au_whisper (env_audio env) = Inr wr"
    then obtain result where r: "process_audio (env_audio env) = Inr result"
      using process_audio_total [of "env_audio env" duration wr] by blast
    from a have "sessions db task_id = Some s" "ts_id s = task_id" "env_transcriber env = None"
      "env_save env = None" "\<forall>n. env_report env n = None"
      by simp_all
    from run_completes [OF this r]
    show "map_option ts_status
          (sessions (run_database (process_transcription env task_id db)) task_id)
        = Some ''completed''"
      by simp
  qed
  show ?thesis
    using raises fallback_dict [of duration] fallback_lookup_1 [of duration]
      fallback_lookup_2 [of duration] fallback_keys [of duration] cover total job
    by blast
qed

theorem diarization_fallbacks_witness:
  "(0 :: real) < 60 \<and> (0 :: real) \<le> 45 \<and> (45 :: real) \<le> 60
   \<and> window_interval 60 1 \<in> set (dict_lookup (perform_diarization None 60) (window_speaker 1))
   \<and> window_interval 60 1 = (30, 60)
   \<and> sessions example_db ''job'' = Some (new_session ''job'' ''user'' ''a.wav'' ''upload'' 1000)
   \<and> au_duration (example_audio\<lparr>au_pipeline := Some (Raises ''pipeline error'')\<rparr>) = Inr 2
   \<and> au_whisper (example_audio\<lparr>au_pipeline := Some (Raises ''pipeline error'')\<rparr>)
       = Inr example_whisper
   \<and> map_option ts_status
        (sessions (run_database (process_transcription
           (example_env\<lparr>env_audio := example_audio\<lparr>au_pipeline := Some (Raises ''pipeline error'')\<rparr>\<rparr>)
           ''job'' example_db)) ''job'')
      = Some ''completed''"
proof -
  let ?au = "example_audio\<lparr>au_pipeline := Some (Raises ''pipeline error'')\<rparr>"
  let ?env = "example_env\<lparr>env_audio := ?au\<rparr>"
  have pre: "sessions example_db ''job'' = Some (new_session ''job'' ''user'' ''a.wav'' ''upload'' 1000)
      \<and> ts_id (new_session ''job'' ''user'' ''a.wav'' ''upload'' 1000) = ''job''
      \<and> env_transcriber ?env = None \<and> env_save ?env = None \<and> (\<forall>n. env_report ?env n = None)
      \<and> au_duration (env_audio ?env) = Inr 2 \<and> au_whisper (env_audio ?env) = Inr example_whisper"
    by (simp add: example_db_job new_session_def example_env_def example_audio_def)
  have w: "window_interval 60 1 = (30, 60)"
    by (simp add: window_interval_def)
  have m: "window_interval 60 1
             \<in> set (dict_lookup (perform_diarization None 60) (window_speaker 1))"
    by (simp add: perform_diarization_fallback_60 window_interval_def window_speaker_def
        dict_lookup_def)
  from diarization_fallbacks [of "''pipeline error''" 2 45 ?au example_whisper example_db "''job''"
      "new_session ''job'' ''user'' ''a.wav'' ''upload'' 1000" ?env] pre
  have "map_option ts_status
        (sessions (run_database (process_transcription ?env ''job'' example_db)) ''job'')
      = Some ''completed''"
    by blast
  then show ?thesis
    using pre m w by (simp add: example_audio_def)
qed

section \<open>The stored result against the computed one\<close>

lemma exp_minus_8: "exp (- 8 :: real) < 1 / 200"
proof -
  have "(2 :: real) \<le> exp 1"
    using exp_ge_add_one_self [of "1 :: real"] by simp
  then have "(2 :: real) ^ 8 \<le> exp 1 ^ 8"
    by (rule power_mono) simp
  also have "exp (1 :: real) ^ 8 = exp 8"
    using exp_of_nat_mult [of 8 "1 :: real"] by simp
  finally have "(200 :: real) < exp 8"
    by simp
  then have "inverse (exp (8 :: real)) < inverse 200"
    by (simp add: field_simps)
  then show ?thesis
    by (simp add: exp_minus)
qed

lemma py_round2_small:
  assumes "0 \<le> y" "y < 1 / 200"
  shows "py_round2 y = 0"
proof -
  have a: "0 \<le> y * 100" "y * 100 < 1 / 2" using assms by simp_all
  then have "\<lfloor>y * 100\<rfloor> = 0" by (simp add: floor_eq_iff)
  then have "round_half_even (y * 100) = 0"
    using a by (simp add: round_half_even_def)
  then show ?thesis by (simp add: py_round2_def)
qed

lemma faint_confidence: "calculate_confidence faint_whisper = 0"
proof -
  have "0 \<le> max 0 (min 1 (exp (- 8 :: real)))" by simp
  moreover have "max 0 (min 1 (exp (- 8 :: real))) < 1 / 200"
    using exp_minus_8 by simp
  ultimately have "py_round2 (max 0 (min 1 (exp (- 8 :: real)))) = 0"
    by (rule py_round2_small)
  then show ?thesis
    by (simp add: calculate_confidence_def faint_whisper_def)
qed

lemma faint_transcript:
  "assign_speakers_to_words faint_whisper [(''speaker_1'', [(0, 2)])] = res_transcript example_result"
  by (simp add: assign_speakers_to_words_def all_words_def whisper_segments_def timestamped_words_def
      faint_whisper_def example_result_def assign_word_def py_round2_def round_half_even_def
      py_strip_def isspace_def)

lemma process_audio_faint:
  "process_audio faint_audio = Inr (example_result\<lparr>res_confidence := 0\<rparr>)"
  by (simp add: process_audio_def faint_audio_def perform_diarization_fallback_2
      faint_transcript example_speakers faint_confidence py_round2_def round_half_even_def)
     (simp add: example_result_def faint_whisper_def)

text \<open>
  C5 at the failing input. The segment of the recording has the average log probability
  \<open>-8\<close>, so \<^verbatim>\<open>calculate_confidence\<close> rounds \<open>exp (-8)\<close> to the confidence 0.
  The run stores 0 in \<^verbatim>\<open>confidence_score\<close>; \<^verbatim>\<open>get_transcription_result\<close> reads it
  with \<^verbatim>\<open>session.confidence_score or 0.85\<close> and returns 0.85.
\<close>

theorem zero_confidence_read_back_as_default:
  "process_audio faint_audio = Inr (example_result\<lparr>res_confidence := 0\<rparr>)
   \<and> run_outcome (process_transcription (example_env\<lparr>env_audio := faint_audio\<rparr>) ''job'' example_db)
       = Inr (example_result\<lparr>res_confidence := 0\<rparr>)
   \<and> get_transcription_result ''job''
        (run_database (process_transcription (example_env\<lparr>env_audio := faint_audio\<rparr>)
           ''job'' example_db))
       = Inr (example_result\<lparr>res_confidence := 85 / 100\<rparr>)"
  by (simp add: process_audio_faint process_transcription_def example_env_def example_db_job
      Let_def run_parts get_transcription_result_def commit_session_def
      save_transcription_results_def example_db_def create_transcription_task_def
      empty_database_def new_session_def py_or_def)
     (simp add: example_result_def)

lemma speaker_eta:
  "\<lparr>sp_id = sp_id x, sp_total_sec = sp_total_sec x\<rparr> = x"
  by (cases x) simp

text \<open>
  Where the two results agree: the job had no rows before the run, nothing raises, the
  computed language is not empty, the computed confidence is not 0 and the transcript is
  in the order of its start times.
\<close>

lemma stored_result_equals_computed:
  assumes "sessions db task_id = Some s" and "ts_id s = task_id"
    and "env_transcriber env = None" and "env_save env = None"
    and "\<forall>n. env_report env n = None"
    and "process_audio (env_audio env) = Inr result"
    and "\<forall>w \<in> set (transcript_words db). word_session_id w \<noteq> task_id"
    and "\<forall>r \<in> set (speakers db). spk_session_id r \<noteq> task_id"
    and "res_language result \<noteq> []" and "res_confidence result \<noteq> 0"
    and "sorted (map tw_start (res_transcript result))"
  shows "get_transcription_result task_id
           (run_database (process_transcription env task_id db)) = Inr result"
proof -
  let ?db' = "run_database (process_transcription env task_id db)"
  let ?row = "\<lambda>e. \<lparr>word_session_id = task_id, word_text = tw_word e,
                     word_start_time = tw_start e, word_end_time = tw_end e,
                     word_speaker_label = tw_speaker e\<rparr>"
  let ?srow = "\<lambda>e. \<lparr>spk_session_id = task_id, spk_speaker_id = sp_id e,
                      spk_total_seconds = sp_total_sec e\<rparr>"
  have sess: "sessions ?db' task_id
           = Some (s\<lparr>ts_status := ''completed'', ts_progress := 100,
                     ts_started_at := Some (env_utcnow env 0),
                     ts_completed_at := Some (env_utcnow env 1),
                     ts_language := Some (res_language result),
                     ts_duration_seconds := Some (res_duration_sec result),
                     ts_confidence_score := Some (res_confidence result)\<rparr>)"
    using run_completes [OF assms(1-6)] by simp
  have tables: "transcript_words ?db' = transcript_words db @ map ?row (res_transcript result)"
    "speakers ?db' = speakers db @ map ?srow (res_speakers result)"
    using assms(1-6)
    by (simp_all add: process_transcription_def commit_session_def Let_def run_parts
        save_transcription_results_def)
  have w0: "filter (\<lambda>w. word_session_id w = task_id) (transcript_words db) = []"
    using assms(7) by (simp add: filter_empty_conv)
  have s0: "filter (\<lambda>r. spk_session_id r = task_id) (speakers db) = []"
    using assms(8) by (simp add: filter_empty_conv)
  have words: "filter (\<lambda>w. word_session_id w = task_id) (transcript_words ?db')
                 = map ?row (res_transcript result)"
    by (simp add: tables w0 filter_map comp_def)
  have spks: "filter (\<lambda>r. spk_session_id r = task_id) (speakers ?db')
                 = map ?srow (res_speakers result)"
    by (simp add: tables s0 filter_map comp_def)
  have sw: "sort_key word_start_time (map ?row (res_transcript result))
              = map ?row (res_transcript result)"
    by (rule sort_key_id_if_sorted) (simp add: comp_def assms(11))
  obtain wr ss where sp: "res_speakers result = calculate_speaker_stats (assign_speakers_to_words wr ss)"
    using assms(6) by (auto simp: process_audio_def Let_def split: sum.splits)
  have "sorted (map (\<lambda>e. - sp_total_sec e) (res_speakers result))"
    unfolding sp calculate_speaker_stats_def by (rule sorted_sort_key)
  then have ssp: "sort_key (\<lambda>r. - spk_total_seconds r) (map ?srow (res_speakers result))
              = map ?srow (res_speakers result)"
    by (intro sort_key_id_if_sorted) (simp add: comp_def)
  have dur: "py_or (Some (res_duration_sec result)) (\<lambda>d. d = 0) 0 = res_duration_sec result"
    by (simp add: py_or_def)
  show ?thesis
    using assms(9,10)
    by (simp add: get_transcription_result_def sess words spks sw ssp dur py_or_def comp_def
        entry_eta speaker_eta)
qed

end
